theory Spec2Isabelle
  imports Main "HOL-Library.Stream" "HOL-Library.Sublist"
begin

section \<open>Stream descriptors and the catalogue's queries\<close>

text \<open>
  \<^verbatim>\<open>youtube.py\<close> reads the streams of a video through the catalogue library
  (\<^verbatim>\<open>yt.streams.filter(...).order_by(...).desc().first()\<close>). A stream descriptor is a
  record of the attributes these queries and the program read. Labels are Python
  strings (\<^verbatim>\<open>"1080p"\<close>, \<^verbatim>\<open>"128kbps"\<close>); an attribute that a stream lacks is
  \<^verbatim>\<open>None\<close>.
\<close>

record yt_stream =
  itag :: nat
  is_adaptive :: bool
  includes_video_track :: bool
  includes_audio_track :: bool
  subtype :: string
  resolution :: "string option"
  abr :: "string option"

text \<open>The filters of the query: \<^verbatim>\<open>adaptive=True\<close>, \<^verbatim>\<open>only_video=True\<close>,
  \<^verbatim>\<open>only_audio=True\<close>, \<^verbatim>\<open>file_extension='mp4'\<close>, \<^verbatim>\<open>res=label\<close>.\<close>

definition only_video :: "yt_stream \<Rightarrow> bool" where
  "only_video s \<longleftrightarrow> includes_video_track s \<and> \<not> includes_audio_track s"

definition only_audio :: "yt_stream \<Rightarrow> bool" where
  "only_audio s \<longleftrightarrow> includes_audio_track s \<and> \<not> includes_video_track s"

definition file_extension :: "string \<Rightarrow> yt_stream \<Rightarrow> bool" where
  "file_extension ext s \<longleftrightarrow> subtype s = ext"

definition res :: "string \<Rightarrow> yt_stream \<Rightarrow> bool" where
  "res label s \<longleftrightarrow> resolution s = Some label"

text \<open>
  \<^verbatim>\<open>order_by(attribute)\<close> drops the streams whose attribute is \<^verbatim>\<open>None\<close> and sorts the
  others, stably and ascending, by a key computed from the attribute. The key belongs to
  the catalogue library, not to this program, and is a parameter \<open>key\<close> here; the library
  compares the number spelled by the digits of the label, which is \<open>digits_value\<close> below.
  (For a label without any digit the library compares the labels as text instead; every
  label of the catalogue's table, \<^verbatim>\<open>144p\<close> to \<^verbatim>\<open>4320p\<close> and \<^verbatim>\<open>48kbps\<close> to
  \<^verbatim>\<open>384kbps\<close>, has digits.)
  \<^verbatim>\<open>desc()\<close> reverses the list and \<^verbatim>\<open>first()\<close> is the head or \<^verbatim>\<open>None\<close>.
\<close>

definition order_by ::
  "(string \<Rightarrow> nat) \<Rightarrow> (yt_stream \<Rightarrow> string option) \<Rightarrow> yt_stream list \<Rightarrow> yt_stream list" where
  "order_by key attribute fmt_streams =
     sort_key (\<lambda>s. key (the (attribute s))) (filter (\<lambda>s. attribute s \<noteq> None) fmt_streams)"

definition desc :: "yt_stream list \<Rightarrow> yt_stream list" where
  "desc fmt_streams = rev fmt_streams"

definition first :: "yt_stream list \<Rightarrow> yt_stream option" where
  "first fmt_streams = (case fmt_streams of [] \<Rightarrow> None | s # _ \<Rightarrow> Some s)"

definition is_digit :: "char \<Rightarrow> bool" where
  "is_digit c \<longleftrightarrow> c \<in> set ''0123456789''"

definition nat_of_digits :: "string \<Rightarrow> nat" where
  "nat_of_digits ds = foldl (\<lambda>n c. 10 * n + (of_char c - 48)) 0 ds"

definition digits_value :: "string \<Rightarrow> nat" where
  "digits_value label = nat_of_digits (filter is_digit label)"

section \<open>What the program prints, and what it can raise\<close>

text \<open>
  The exceptions that reach the program's handlers. \<^verbatim>\<open>KeyboardInterrupt\<close> and
  \<^verbatim>\<open>SystemExit\<close> are not subclasses of \<^verbatim>\<open>Exception\<close>; the others are.
  \<^verbatim>\<open>CalledProcessError\<close> carries the command, the exit status and the captured
  standard output and standard error.
\<close>

datatype exception =
    KeyboardInterrupt
  | SystemExit int
  | EOFError
  | ValueError
  | IndexError
  | CalledProcessError "string list" int string string
  | OSError string
  | CatalogueError string

fun is_Exception :: "exception \<Rightarrow> bool" where
  "is_Exception KeyboardInterrupt = False"
| "is_Exception (SystemExit _) = False"
| "is_Exception _ = True"

fun show_nat :: "nat \<Rightarrow> string" where
  "show_nat n =
     (if n < 10 then [char_of (48 + n)]
      else show_nat (n div 10) @ [char_of (48 + n mod 10)])"

definition show_int :: "int \<Rightarrow> string" where
  "show_int i = (if i < 0 then CHR ''-'' # show_nat (nat (- i)) else show_nat (nat i))"

text \<open>\<^verbatim>\<open>repr\<close> of a list of plain strings (no quote or backslash in them):
  \<^verbatim>\<open>['ffmpeg', '-y']\<close>.\<close>

fun comma_separated :: "string list \<Rightarrow> string" where
  "comma_separated [] = []"
| "comma_separated [x] = x"
| "comma_separated (x # y # ys) = x @ '', '' @ comma_separated (y # ys)"

definition repr_list :: "string list \<Rightarrow> string" where
  "repr_list xs = ''['' @ comma_separated (map (\<lambda>x. [CHR 0x27] @ x @ [CHR 0x27]) xs) @ '']''"

text \<open>\<^verbatim>\<open>str(e)\<close>, which is what \<^verbatim>\<open>f"{e}"\<close> formats. The text of a
  \<^verbatim>\<open>CalledProcessError\<close> names the command and its exit status (or the signal that
  killed it); the captured output is kept in the exception's fields only.\<close>

fun py_str :: "exception \<Rightarrow> string" where
  "py_str KeyboardInterrupt = []"
| "py_str (SystemExit code) = show_int code"
| "py_str EOFError = []"
| "py_str ValueError = []"
| "py_str IndexError = ''list index out of range''"
| "py_str (CalledProcessError cmd returncode captured_stdout captured_stderr) =
     (if returncode < 0
      then ''Command '' @ [CHR 0x27] @ repr_list cmd @ [CHR 0x27] @ '' died with signal ''
             @ show_int (- returncode) @ ''.''
      else ''Command '' @ [CHR 0x27] @ repr_list cmd @ [CHR 0x27]
             @ '' returned non-zero exit status '' @ show_int returncode @ ''.'')"
| "py_str (OSError text) = text"
| "py_str (CatalogueError text) = text"

text \<open>
  The lines the program prints, one constructor for each \<^verbatim>\<open>print\<close> of the source that
  the pipeline reaches (the banner, the information box and the spinner are left out):
  \<^item> \<open>Resolucoes_disponiveis\<close>, \<open>Resolucao_item n label\<close> (\<^verbatim>\<open>[n] label\<close>) and
    \<open>Fim_resolucoes\<close>: the menu of \<^verbatim>\<open>select_resolution\<close>;
  \<^item> \<open>Opcao_invalida\<close>: "Opcao invalida. Tente novamente.";
  \<^item> \<open>Numero_invalido\<close>: "Por favor, digite um numero valido.";
  \<^item> \<open>Erro_ao_obter_informacoes text\<close>: "Erro ao obter informacoes do video: text";
  \<^item> \<open>Streams_nao_encontrados\<close>: "Erro: Streams nao encontrados";
  \<^item> \<open>Mesclando_arquivos\<close>: "Mesclando arquivos...";
  \<^item> \<open>Download_concluido\<close>: "Download concluido com sucesso!";
  \<^item> \<open>Arquivo_salvo path\<close>: "Arquivo salvo em: path";
  \<^item> \<open>Erro_durante_o_processo text\<close>: "Erro durante o processo: text";
  \<^item> \<open>Operacao_cancelada\<close>: "Operacao cancelada pelo usuario.";
  \<^item> \<open>Traceback e\<close>: the interpreter's report of an exception nobody caught.
\<close>

datatype message =
    Resolucoes_disponiveis
  | Resolucao_item nat string
  | Fim_resolucoes
  | Opcao_invalida
  | Numero_invalido
  | Erro_ao_obter_informacoes string
  | Streams_nao_encontrados
  | Mesclando_arquivos
  | Download_concluido
  | Arquivo_salvo string
  | Erro_durante_o_processo string
  | Operacao_cancelada
  | Traceback exception

fun message_text :: "message \<Rightarrow> string" where
  "message_text (Erro_ao_obter_informacoes text) = text"
| "message_text (Erro_durante_o_processo text) = text"
| "message_text (Arquivo_salvo path) = path"
| "message_text (Resolucao_item n label) = label"
| "message_text _ = []"

section \<open>The state of a run\<close>

text \<open>
  The program reads lines from the terminal, writes files under the destination
  directory and prints. The terminal is a stream of events that never ends: a line the
  user types, Ctrl-C at the prompt (\<^verbatim>\<open>input\<close> raises \<^verbatim>\<open>KeyboardInterrupt\<close>) or a closed
  standard input (\<^verbatim>\<open>input\<close> raises \<^verbatim>\<open>EOFError\<close>). \<open>interrupted\<close> is not a variable of
  the program: it records that the interrupt signal was delivered to the run, with the
  files that were on disk at that moment.
\<close>

datatype console_event = Line string | Ctrl_C | End_of_input

record state =
  console :: "console_event stream"
  files :: "string set"
  out :: "message list"
  interrupted :: "string set option"

definition print :: "message \<Rightarrow> state \<Rightarrow> state" where
  "print m s = s\<lparr>out := out s @ [m]\<rparr>"

text \<open>An exception raised by the world outside the program (the terminal, the network,
  the multiplexer, the file system).\<close>

definition delivered :: "exception \<Rightarrow> state \<Rightarrow> state" where
  "delivered e s = (if e = KeyboardInterrupt then s\<lparr>interrupted := Some (files s)\<rparr> else s)"

definition external :: "exception \<Rightarrow> state \<Rightarrow> (exception + 'a) \<times> state" where
  "external e s = (Inl e, delivered e s)"

definition sys_exit :: "int \<Rightarrow> state \<Rightarrow> (exception + 'a) \<times> state" where
  "sys_exit code s = (Inl (SystemExit code), s)"

definition and_then ::
  "(state \<Rightarrow> (exception + 'a) \<times> state) \<Rightarrow> ('a \<Rightarrow> state \<Rightarrow> (exception + 'b) \<times> state)
     \<Rightarrow> state \<Rightarrow> (exception + 'b) \<times> state" where
  "and_then m f s = (case m s of (Inl e, s') \<Rightarrow> (Inl e, s') | (Inr x, s') \<Rightarrow> f x s')"

definition input :: "state \<Rightarrow> (exception + string) \<times> state" where
  "input s =
     (case shd (console s) of
        Line text \<Rightarrow> (Inr text, s\<lparr>console := stl (console s)\<rparr>)
      | Ctrl_C \<Rightarrow> external KeyboardInterrupt (s\<lparr>console := stl (console s)\<rparr>)
      | End_of_input \<Rightarrow> external EOFError s)"

section \<open>Built-in functions of the language\<close>

text \<open>
  A character of Python text is a Unicode code point; a \<open>char\<close> here is a code point
  below 256, and text with other characters is outside this model. \<^verbatim>\<open>text.strip()\<close>
  removes from both ends the characters for which \<^verbatim>\<open>str.isspace\<close> holds: below 256
  these are the six ASCII blanks, the four separators \<^verbatim>\<open>0x1C\<close> to \<^verbatim>\<open>0x1F\<close>, the next-line
  character \<^verbatim>\<open>0x85\<close> and the no-break space \<^verbatim>\<open>0xA0\<close>.
\<close>

definition is_space :: "char \<Rightarrow> bool" where
  "is_space c \<longleftrightarrow> c \<in> set [CHR 0x20, CHR 0x09, CHR 0x0A, CHR 0x0B, CHR 0x0C, CHR 0x0D,
                              CHR 0x1C, CHR 0x1D, CHR 0x1E, CHR 0x1F, CHR 0x85, CHR 0xA0]"

definition strip :: "string \<Rightarrow> string" where
  "strip text = rev (dropWhile is_space (rev (dropWhile is_space text)))"

text \<open>
  \<^verbatim>\<open>int(text)\<close>. The blanks at both ends are skipped: the six ASCII blanks, and the
  next-line character and the no-break space, but not the separators \<^verbatim>\<open>0x1C\<close> to
  \<^verbatim>\<open>0x1F\<close>. A sign may come first, and the digits may be grouped by single
  underscores; below 256 the only decimal digits are \<^verbatim>\<open>0\<close> to \<^verbatim>\<open>9\<close>. A numeral of more
  than 4300 digits is refused (the interpreter's default limit on the conversion).
  Anything else raises \<^verbatim>\<open>ValueError\<close> too, which is \<open>None\<close> here.
\<close>

definition is_int_space :: "char \<Rightarrow> bool" where
  "is_int_space c \<longleftrightarrow>
     c \<in> set [CHR 0x20, CHR 0x09, CHR 0x0A, CHR 0x0B, CHR 0x0C, CHR 0x0D, CHR 0x85, CHR 0xA0]"

definition int_max_str_digits :: nat where
  "int_max_str_digits = 4300"

fun grouped_digits :: "string \<Rightarrow> bool" where
  "grouped_digits [] = False"
| "grouped_digits [c] = is_digit c"
| "grouped_digits (c # d # cs) =
     (is_digit c \<and> (if d = CHR ''_'' then grouped_digits cs else grouped_digits (d # cs)))"

definition py_int :: "string \<Rightarrow> int option" where
  "py_int text =
     (let t = rev (dropWhile is_int_space (rev (dropWhile is_int_space text)));
          negative = (t \<noteq> [] \<and> hd t = CHR ''-'');
          body = (if t \<noteq> [] \<and> (hd t = CHR ''-'' \<or> hd t = CHR ''+'') then tl t else t)
      in if grouped_digits body \<and> length (filter is_digit body) \<le> int_max_str_digits
         then Some ((if negative then - 1 else 1) * int (nat_of_digits (filter is_digit body)))
         else None)"

text \<open>\<^verbatim>\<open>xs[i]\<close>: a negative index counts from the end, and an index outside the list
  raises \<^verbatim>\<open>IndexError\<close>.\<close>

definition py_index :: "'a list \<Rightarrow> int \<Rightarrow> exception + 'a" where
  "py_index xs i =
     (if 0 \<le> i \<and> i < int (length xs) then Inr (xs ! nat i)
      else if i < 0 \<and> - int (length xs) \<le> i then Inr (xs ! nat (int (length xs) + i))
      else Inl IndexError)"

section \<open>select\_resolution\<close>

text \<open>
  The first loop of \<^verbatim>\<open>select_resolution\<close>: \<open>resolucoes\<close> grows by every label that is
  neither empty (\<^verbatim>\<open>if resolucao\<close>) nor listed yet, and each new label is printed with its
  position. The accumulator is the list and the lines printed so far.
\<close>

fun list_resolutions ::
  "yt_stream list \<Rightarrow> string list \<times> message list \<Rightarrow> string list \<times> message list" where
  "list_resolutions [] acc = acc"
| "list_resolutions (stream # rest) (resolucoes, printed) =
     (case resolution stream of
        None \<Rightarrow> list_resolutions rest (resolucoes, printed)
      | Some resolucao \<Rightarrow>
          if resolucao \<noteq> [] \<and> resolucao \<notin> set resolucoes
          then list_resolutions rest
                 (resolucoes @ [resolucao],
                  printed @ [Resolucao_item (length resolucoes + 1) resolucao])
          else list_resolutions rest (resolucoes, printed))"

text \<open>
  One turn of the \<^verbatim>\<open>while True\<close> loop, that is the \<^verbatim>\<open>try\<close> statement with its handler:
  \<open>Inr (Some label)\<close> is \<^verbatim>\<open>return resolucoes[opcao]\<close>, \<open>Inr None\<close> is the end of the
  turn (the loop goes round again), and \<open>Inl e\<close> is an exception that leaves the function.
  Only \<^verbatim>\<open>ValueError\<close> is handled.
\<close>

definition except_ValueError :: "exception \<Rightarrow> state \<Rightarrow> (exception + string option) \<times> state" where
  "except_ValueError e s =
     (if e = ValueError then (Inr None, print Numero_invalido s) else (Inl e, s))"

definition select_turn :: "string list \<Rightarrow> state \<Rightarrow> (exception + string option) \<times> state" where
  "select_turn resolucoes s =
     (case input s of
        (Inl e, s1) \<Rightarrow> except_ValueError e s1
      | (Inr text, s1) \<Rightarrow>
          (case py_int text of
             None \<Rightarrow> except_ValueError ValueError s1
           | Some n \<Rightarrow>
               (let opcao = n - 1 in
                if 0 \<le> opcao \<and> opcao < int (length resolucoes)
                then (case py_index resolucoes opcao of
                        Inl e \<Rightarrow> except_ValueError e s1
                      | Inr resolucao \<Rightarrow> (Inr (Some resolucao), s1))
                else (Inr None, print Opcao_invalida s1))))"

text \<open>The loop has no bound: \<open>None\<close> is a loop that never leaves.\<close>

partial_function (option) select_loop ::
  "string list \<Rightarrow> state \<Rightarrow> ((exception + string) \<times> state) option" where
  "select_loop resolucoes s =
     (case select_turn resolucoes s of
        (Inl e, s') \<Rightarrow> Some (Inl e, s')
      | (Inr (Some resolucao), s') \<Rightarrow> Some (Inr resolucao, s')
      | (Inr None, s') \<Rightarrow> select_loop resolucoes s')"

definition select_resolution ::
  "yt_stream list \<Rightarrow> state \<Rightarrow> ((exception + string) \<times> state) option" where
  "select_resolution video_streams s =
     (let (resolucoes, printed) = list_resolutions video_streams ([], [Resolucoes_disponiveis])
      in select_loop resolucoes (s\<lparr>out := out s @ printed @ [Fim_resolucoes]\<rparr>))"

section \<open>The world outside the program\<close>

text \<open>
  What \<^verbatim>\<open>YouTube(url)\<close> gives: the title, the video id and the streams of the asset.
\<close>

record youtube =
  title :: string
  video_id :: string
  fmt_streams :: "yt_stream list"

text \<open>
  The answers of the outside world, one for each call the program makes:
  \<^item> a download either completes (the file is there) or raises, with or without the
    partly written file left behind;
  \<^item> the multiplexer either exits with a status, its captured standard output and
    standard error, and the output file written or not, or could not be run;
  \<^item> \<^verbatim>\<open>os.remove\<close> either deletes the file or raises;
  \<^item> the two seconds of \<^verbatim>\<open>loading_animation\<close> either pass or are cut short.
  Any of them can be cut short by the interrupt signal (\<^verbatim>\<open>KeyboardInterrupt\<close>).
\<close>

datatype download_result = Downloaded | Download_raises bool exception

datatype mux_result = Mux_exits int string string bool | Mux_raises exception

record env =
  resolution_key :: "string \<Rightarrow> nat"
  abr_key :: "string \<Rightarrow> nat"
  transliterate :: "string \<Rightarrow> string"
  home :: string
  catalogue :: "string \<Rightarrow> exception + youtube"
  download :: "yt_stream \<Rightarrow> string \<Rightarrow> download_result"
  ffmpeg :: "string list \<Rightarrow> mux_result"
  remove :: "string \<Rightarrow> exception option"
  animation :: "string \<Rightarrow> exception option"

text \<open>\<^verbatim>\<open>loading_animation(text)\<close>: eighty frames of a spinner, a tenth of a second
  apart. The frames overwrite each other on one line and are not kept in \<open>out\<close>.\<close>

definition loading_animation :: "env \<Rightarrow> string \<Rightarrow> state \<Rightarrow> (exception + unit) \<times> state" where
  "loading_animation w text s =
     (case animation w text of None \<Rightarrow> (Inr (), s) | Some e \<Rightarrow> external e s)"

definition stream_download ::
  "env \<Rightarrow> yt_stream \<Rightarrow> string \<Rightarrow> string \<Rightarrow> state \<Rightarrow> (exception + unit) \<times> state" where
  "stream_download w stream output_path filename s =
     (let path = output_path @ ''/'' @ filename in
      case download w stream filename of
        Downloaded \<Rightarrow> (Inr (), s\<lparr>files := insert path (files s)\<rparr>)
      | Download_raises created e \<Rightarrow>
          external e (if created then s\<lparr>files := insert path (files s)\<rparr> else s))"

text \<open>\<^verbatim>\<open>subprocess.run(cmd, check=True, capture_output=True)\<close>: a non-zero exit status
  raises \<^verbatim>\<open>CalledProcessError\<close>; on success the captured output is dropped with the
  result. The command's last word is the output file.\<close>

definition subprocess_run :: "env \<Rightarrow> string list \<Rightarrow> state \<Rightarrow> (exception + unit) \<times> state" where
  "subprocess_run w cmd s =
     (case ffmpeg w cmd of
        Mux_exits returncode captured_stdout captured_stderr written \<Rightarrow>
          (let s' = (if written then s\<lparr>files := insert (last cmd) (files s)\<rparr> else s) in
           if returncode \<noteq> 0
           then (Inl (CalledProcessError cmd returncode captured_stdout captured_stderr), s')
           else (Inr (), s'))
      | Mux_raises e \<Rightarrow> external e s)"

definition os_remove :: "env \<Rightarrow> string \<Rightarrow> state \<Rightarrow> (exception + unit) \<times> state" where
  "os_remove w path s =
     (if path \<notin> files s
      then (Inl (OSError (''[Errno 2] No such file or directory: '' @ [CHR 0x27] @ path
                    @ [CHR 0x27])), s)
      else (case remove w path of
              None \<Rightarrow> (Inr (), s\<lparr>files := files s - {path}\<rparr>)
            | Some e \<Rightarrow> external e s))"

text \<open>
  \<^verbatim>\<open>slugify(title)\<close>. The library first rewrites the text (transliteration to ASCII,
  character entities, lower case, quotes), which is the parameter \<open>transliterate\<close>; then
  every character that is not a letter, a digit or a hyphen becomes a hyphen, runs of
  hyphens are squeezed to one, and the hyphens at both ends are removed.
\<close>

definition allowed_char :: "char \<Rightarrow> bool" where
  "allowed_char c \<longleftrightarrow>
     c \<in> set ''-abcdefghijklmnopqrstuvwxyzABCDEFGHIJKLMNOPQRSTUVWXYZ0123456789''"

fun squeeze_dashes :: "string \<Rightarrow> string" where
  "squeeze_dashes (c # d # cs) =
     (if c = CHR ''-'' \<and> d = CHR ''-'' then squeeze_dashes (d # cs)
      else c # squeeze_dashes (d # cs))"
| "squeeze_dashes cs = cs"

definition strip_dashes :: "string \<Rightarrow> string" where
  "strip_dashes text =
     rev (dropWhile (\<lambda>c. c = CHR ''-'') (rev (dropWhile (\<lambda>c. c = CHR ''-'') text)))"

definition slugify :: "env \<Rightarrow> string \<Rightarrow> string" where
  "slugify w text =
     strip_dashes (squeeze_dashes
       (map (\<lambda>c. if allowed_char c then c else CHR ''-'') (transliterate w text)))"

section \<open>download\_and\_merge\<close>

text \<open>\<^verbatim>\<open>f"{x}"\<close> of an optional string.\<close>

definition format_optional :: "string option \<Rightarrow> string" where
  "format_optional x = (case x of None \<Rightarrow> ''None'' | Some text \<Rightarrow> text)"

definition video_path :: "youtube \<Rightarrow> string \<Rightarrow> string" where
  "video_path yt destino = destino @ ''/'' @ video_id yt @ ''_video.mp4''"

definition audio_path :: "youtube \<Rightarrow> string \<Rightarrow> string" where
  "audio_path yt destino = destino @ ''/'' @ video_id yt @ ''_audio.mp4''"

definition output_name :: "string \<Rightarrow> string option \<Rightarrow> string" where
  "output_name safe_title resolucao = safe_title @ ''_'' @ format_optional resolucao @ ''.mp4''"

definition output_path :: "env \<Rightarrow> youtube \<Rightarrow> yt_stream \<Rightarrow> string \<Rightarrow> string" where
  "output_path w yt video_stream destino =
     destino @ ''/'' @ output_name (slugify w (title yt)) (resolution video_stream)"

definition ffmpeg_cmd :: "env \<Rightarrow> youtube \<Rightarrow> yt_stream \<Rightarrow> string \<Rightarrow> string list" where
  "ffmpeg_cmd w yt video_stream destino =
     [''ffmpeg'', ''-y'',
      ''-i'', video_path yt destino,
      ''-i'', audio_path yt destino,
      ''-c:v'', ''copy'',
      ''-c:a'', ''aac'',
      ''-strict'', ''experimental'',
      output_path w yt video_stream destino]"

text \<open>The body of the \<^verbatim>\<open>try\<close> statement.\<close>

definition download_and_merge_try ::
  "env \<Rightarrow> youtube \<Rightarrow> yt_stream \<Rightarrow> yt_stream \<Rightarrow> string \<Rightarrow> state \<Rightarrow> (exception + unit) \<times> state" where
  "download_and_merge_try w yt video_stream audio_stream destino =
     and_then (loading_animation w ''Baixando video'') (\<lambda>_.
     and_then (stream_download w video_stream destino (video_id yt @ ''_video.mp4'')) (\<lambda>_.
     and_then (loading_animation w ''Baixando audio'') (\<lambda>_.
     and_then (stream_download w audio_stream destino (video_id yt @ ''_audio.mp4'')) (\<lambda>_.
     and_then (\<lambda>s. (Inr (), print Mesclando_arquivos s)) (\<lambda>_.
     and_then (subprocess_run w (ffmpeg_cmd w yt video_stream destino)) (\<lambda>_.
     and_then (os_remove w (video_path yt destino)) (\<lambda>_.
     and_then (os_remove w (audio_path yt destino)) (\<lambda>_.
     (\<lambda>s. (Inr (),
        print (Arquivo_salvo (output_path w yt video_stream destino))
          (print Download_concluido s)))))))))))"

text \<open>\<^verbatim>\<open>except Exception as e\<close>: the message with \<^verbatim>\<open>str(e)\<close>, then
  \<^verbatim>\<open>sys.exit(1)\<close>. \<^verbatim>\<open>KeyboardInterrupt\<close> and \<^verbatim>\<open>SystemExit\<close> pass through.\<close>

definition download_and_merge ::
  "env \<Rightarrow> youtube \<Rightarrow> yt_stream \<Rightarrow> yt_stream \<Rightarrow> string \<Rightarrow> state \<Rightarrow> (exception + unit) \<times> state" where
  "download_and_merge w yt video_stream audio_stream destino s =
     (case download_and_merge_try w yt video_stream audio_stream destino s of
        (Inr u, s') \<Rightarrow> (Inr u, s')
      | (Inl e, s') \<Rightarrow>
          if is_Exception e then sys_exit 1 (print (Erro_durante_o_processo (py_str e)) s')
          else (Inl e, s'))"

section \<open>main and the program\<close>

definition get_video_info :: "env \<Rightarrow> string \<Rightarrow> state \<Rightarrow> (exception + youtube) \<times> state" where
  "get_video_info w url s =
     (case catalogue w url of
        Inr yt \<Rightarrow> (Inr yt, s)
      | Inl e \<Rightarrow>
          if is_Exception e
          then sys_exit 1 (print (Erro_ao_obter_informacoes (py_str e)) (delivered e s))
          else (Inl e, delivered e s))"

text \<open>The three queries of \<^verbatim>\<open>main\<close>.\<close>

definition video_streams_query :: "(string \<Rightarrow> nat) \<Rightarrow> yt_stream list \<Rightarrow> yt_stream list" where
  "video_streams_query key all_streams =
     desc (order_by key resolution
       (filter (\<lambda>s. is_adaptive s \<and> only_video s \<and> file_extension ''mp4'' s) all_streams))"

definition video_stream_query :: "string \<Rightarrow> yt_stream list \<Rightarrow> yt_stream option" where
  "video_stream_query resolucao_escolhida all_streams =
     first (filter (\<lambda>s. res resolucao_escolhida s \<and> only_video s \<and> file_extension ''mp4'' s)
       all_streams)"

definition audio_stream_query :: "(string \<Rightarrow> nat) \<Rightarrow> yt_stream list \<Rightarrow> yt_stream option" where
  "audio_stream_query key all_streams =
     first (desc (order_by key abr
       (filter (\<lambda>s. only_audio s \<and> file_extension ''mp4'' s) all_streams)))"

text \<open>The two assignments \<^verbatim>\<open>video_stream = ...\<close> and \<^verbatim>\<open>audio_stream = ...\<close> of
  \<^verbatim>\<open>main\<close>, which the specification calls \<^verbatim>\<open>resolveDescriptors\<close>.\<close>

definition resolveDescriptors ::
  "env \<Rightarrow> youtube \<Rightarrow> string \<Rightarrow> yt_stream option \<times> yt_stream option" where
  "resolveDescriptors w yt resolucao_escolhida =
     (let video_stream = video_stream_query resolucao_escolhida (fmt_streams yt);
          audio_stream = audio_stream_query (abr_key w) (fmt_streams yt)
      in (video_stream, audio_stream))"

text \<open>\<^verbatim>\<open>main\<close> after \<^verbatim>\<open>select_resolution\<close> has returned.\<close>

definition main_after_selection ::
  "env \<Rightarrow> youtube \<Rightarrow> string \<Rightarrow> string \<Rightarrow> state \<Rightarrow> (exception + unit) \<times> state" where
  "main_after_selection w yt destino resolucao_escolhida s =
     (case resolveDescriptors w yt resolucao_escolhida of
        (Some v, Some a) \<Rightarrow> download_and_merge w yt v a destino s
      | _ \<Rightarrow> sys_exit 1 (print Streams_nao_encontrados s))"

text \<open>\<^verbatim>\<open>main\<close>. Clearing the screen, the banner and the table with the video's details
  only print; they are left out of \<open>out\<close>.\<close>

definition main :: "env \<Rightarrow> state \<Rightarrow> ((exception + unit) \<times> state) option" where
  "main w s =
     (case input s of
        (Inl e, s1) \<Rightarrow> Some (Inl e, s1)
      | (Inr text, s1) \<Rightarrow>
          (let url = strip text; destino = home w @ ''/Videos'' in
           case loading_animation w ''Obtendo informacoes do video'' s1 of
             (Inl e, s2) \<Rightarrow> Some (Inl e, s2)
           | (Inr _, s2) \<Rightarrow>
               (case get_video_info w url s2 of
                  (Inl e, s3) \<Rightarrow> Some (Inl e, s3)
                | (Inr yt, s3) \<Rightarrow>
                    (case select_resolution
                            (video_streams_query (resolution_key w) (fmt_streams yt)) s3 of
                       None \<Rightarrow> None
                     | Some (Inl e, s4) \<Rightarrow> Some (Inl e, s4)
                     | Some (Inr resolucao_escolhida, s4) \<Rightarrow>
                         Some (main_after_selection w yt destino resolucao_escolhida s4)))))"

text \<open>
  The script's last lines: \<^verbatim>\<open>KeyboardInterrupt\<close> is answered by the cancellation message
  and exit status 0. \<^verbatim>\<open>SystemExit\<close> ends the process with its status, and any other
  exception ends it with the interpreter's traceback and status 1. The result is the
  exit status and the final state.
\<close>

fun at_exit :: "(exception + unit) \<times> state \<Rightarrow> int \<times> state" where
  "at_exit (Inr u, s) = (0, s)"
| "at_exit (Inl KeyboardInterrupt, s) = (0, print Operacao_cancelada s)"
| "at_exit (Inl (SystemExit code), s) = (code, s)"
| "at_exit (Inl e, s) = (1, print (Traceback e) s)"

definition program :: "env \<Rightarrow> state \<Rightarrow> (int \<times> state) option" where
  "program w s = map_option at_exit (main w s)"

definition availableResolutions :: "(string \<Rightarrow> nat) \<Rightarrow> yt_stream list \<Rightarrow> string list" where
  "availableResolutions key all_streams =
     fst (list_resolutions (video_streams_query key all_streams) ([], [Resolucoes_disponiveis]))"

section \<open>Notions of the specification, and sample data\<close>

text \<open>Deduplication as the specification words it: of equal labels, the first one
  met stays.\<close>

fun keep_first :: "'a list \<Rightarrow> 'a list" where
  "keep_first [] = []"
| "keep_first (x # xs) = x # filter (\<lambda>y. y \<noteq> x) (keep_first xs)"

text \<open>The labels a sequence of streams carries, in order: the ones that are neither
  \<^verbatim>\<open>None\<close> nor empty.\<close>

definition labels_of :: "yt_stream list \<Rightarrow> string list" where
  "labels_of ss = filter (\<lambda>r. r \<noteq> []) (List.map_filter resolution ss)"

text \<open>The audio-only mp4 streams that have a bitrate.\<close>

definition audio_candidates :: "yt_stream list \<Rightarrow> yt_stream list" where
  "audio_candidates all_streams =
     filter (\<lambda>s. only_audio s \<and> file_extension ''mp4'' s \<and> abr s \<noteq> None) all_streams"

text \<open>The resolution labels of the catalogue's table: a number without leading zero,
  then \<^verbatim>\<open>p\<close> (\<^verbatim>\<open>144p\<close>, \<^verbatim>\<open>720p\<close>, \<^verbatim>\<open>1080p\<close>, \<^verbatim>\<open>2160p\<close>). A stream of the catalogue has
  such a label or none.\<close>

definition resolution_label :: "string \<Rightarrow> bool" where
  "resolution_label label \<longleftrightarrow>
     label \<noteq> [] \<and> last label = CHR ''p'' \<and> butlast label \<noteq> [] \<and>
     list_all is_digit (butlast label) \<and> hd label \<noteq> CHR ''0''"

definition catalogue_stream :: "yt_stream \<Rightarrow> bool" where
  "catalogue_stream s \<longleftrightarrow>
     (case resolution s of None \<Rightarrow> True | Some label \<Rightarrow> resolution_label label)"

text \<open>A typed line that the selection loop does not accept, and the message that
  answers it.\<close>

definition rejected :: "string list \<Rightarrow> string \<Rightarrow> bool" where
  "rejected resolucoes text \<longleftrightarrow>
     (case py_int text of
        None \<Rightarrow> True
      | Some i \<Rightarrow> \<not> (1 \<le> i \<and> i \<le> int (length resolucoes)))"

definition reply :: "string \<Rightarrow> message" where
  "reply text = (if py_int text = None then Numero_invalido else Opcao_invalida)"

text \<open>A terminal on which only lines are typed, for ever.\<close>

definition only_lines :: "console_event stream \<Rightarrow> bool" where
  "only_lines c \<longleftrightarrow> (\<forall>e \<in> sset c. e \<noteq> Ctrl_C \<and> e \<noteq> End_of_input)"

definition video_only :: "nat \<Rightarrow> string \<Rightarrow> yt_stream" where
  "video_only i label =
     \<lparr>itag = i, is_adaptive = True, includes_video_track = True, includes_audio_track = False,
      subtype = ''mp4'', resolution = Some label, abr = None\<rparr>"

definition audio_only :: "nat \<Rightarrow> string \<Rightarrow> yt_stream" where
  "audio_only i rate =
     \<lparr>itag = i, is_adaptive = True, includes_video_track = False, includes_audio_track = True,
      subtype = ''mp4'', resolution = None, abr = Some rate\<rparr>"

text \<open>The scenario of the specification: two resolutions, one of them twice, and two
  audio bitrates.\<close>

definition scenario :: "yt_stream list" where
  "scenario = [video_only 1 ''1080p'', video_only 2 ''720p'', video_only 3 ''720p'',
     audio_only 4 ''128kbps'', audio_only 5 ''256kbps'']"


fun mux_ok :: "mux_result \<Rightarrow> bool" where
  "mux_ok (Mux_exits returncode captured_stdout captured_stderr written) = (returncode = 0)"
| "mux_ok (Mux_raises e) = False"

fun mux_writes :: "mux_result \<Rightarrow> bool" where
  "mux_writes (Mux_exits returncode captured_stdout captured_stderr written) = written"
| "mux_writes (Mux_raises e) = False"

definition fetched :: "env \<Rightarrow> youtube \<Rightarrow> yt_stream \<Rightarrow> yt_stream \<Rightarrow> bool" where
  "fetched w yt v a \<longleftrightarrow>
     animation w ''Baixando video'' = None \<and>
     download w v (video_id yt @ ''_video.mp4'') = Downloaded \<and>
     animation w ''Baixando audio'' = None \<and>
     download w a (video_id yt @ ''_audio.mp4'') = Downloaded"

definition reaches_cleanup :: "env \<Rightarrow> youtube \<Rightarrow> yt_stream \<Rightarrow> yt_stream \<Rightarrow> string \<Rightarrow> bool" where
  "reaches_cleanup w yt v a destino \<longleftrightarrow>
     fetched w yt v a \<and> mux_ok (ffmpeg w (ffmpeg_cmd w yt v destino))"



text \<open>The state of the disk and of the screen when the two downloads have completed and
  the merge is announced, and then when the multiplexer has run.\<close>

definition fetched_state :: "youtube \<Rightarrow> string \<Rightarrow> state \<Rightarrow> state" where
  "fetched_state yt destino s =
     print Mesclando_arquivos
       (s\<lparr>files := insert (audio_path yt destino) (insert (video_path yt destino) (files s))\<rparr>)"

definition after_mux :: "env \<Rightarrow> youtube \<Rightarrow> yt_stream \<Rightarrow> string \<Rightarrow> state \<Rightarrow> state" where
  "after_mux w yt v destino s =
     (let s1 = fetched_state yt destino s
      in if mux_writes (ffmpeg w (ffmpeg_cmd w yt v destino))
         then s1\<lparr>files := insert (output_path w yt v destino) (files s1)\<rparr> else s1)"

text \<open>A run in which the user types the same line at every prompt, with nothing on
  disk and nothing printed yet.\<close>

definition typing :: "string \<Rightarrow> state" where
  "typing text = \<lparr>console = sconst (Line text), files = {}, out = [], interrupted = None\<rparr>"

text \<open>A run on a standard input that ends after the given lines (a pipe, or the user
  closing the terminal).\<close>

definition piped :: "string list \<Rightarrow> state" where
  "piped lines =
     \<lparr>console = map Line lines @- sconst End_of_input, files = {}, out = [], interrupted = None\<rparr>"

text \<open>A video with the streams of the scenario, and an outside world that serves it:
  \<open>d\<close> is the outcome of the download of each file, \<open>m\<close> the outcome of the
  multiplexer and \<open>r\<close> the outcome of each removal.\<close>

definition sample_video :: youtube where
  "sample_video =
     \<lparr>title = ''big buck bunny'', video_id = ''aqz-KE-bpKQ'', fmt_streams = scenario\<rparr>"

definition sample_env ::
  "(string \<Rightarrow> download_result) \<Rightarrow> mux_result \<Rightarrow> (string \<Rightarrow> exception option) \<Rightarrow> env" where
  "sample_env d m r =
     \<lparr>resolution_key = digits_value, abr_key = digits_value, transliterate = (\<lambda>text. text),
      home = ''/home/user'', catalogue = (\<lambda>url. Inr sample_video),
      download = (\<lambda>stream filename. d filename), ffmpeg = (\<lambda>cmd. m),
      remove = r, animation = (\<lambda>text. None)\<rparr>"

text \<open>The sample run: the user types \<^verbatim>\<open>1\<close> at every prompt, so the first resolution of
  the menu is chosen. \<open>selected\<close> is the state in which \<^verbatim>\<open>download_and_merge\<close> then
  starts, \<open>chosen\<close> and \<open>best_audio\<close> are the two streams it is given and \<open>videos\<close> the
  destination directory.\<close>

definition selected :: state where
  "selected =
     (typing ''1'')\<lparr>out := [Resolucoes_disponiveis, Resolucao_item 1 ''1080p'',
        Resolucao_item 2 ''720p'', Fim_resolucoes]\<rparr>"

definition chosen :: yt_stream where
  "chosen = video_only 1 ''1080p''"

definition best_audio :: yt_stream where
  "best_audio = audio_only 5 ''256kbps''"

definition videos :: string where
  "videos = ''/home/user/Videos''"

text \<open>Outside worlds for the sample run: one where everything works, one where the
  multiplexer fails with a diagnostic on its standard error, one where the temporary video
  file cannot be removed, and one where the user interrupts the download of the audio
  after part of the file is written.\<close>

definition world_ok :: env where
  "world_ok = sample_env (\<lambda>f. Downloaded) (Mux_exits 0 [] [] True) (\<lambda>p. None)"

definition world_mux_fails :: env where
  "world_mux_fails =
     sample_env (\<lambda>f. Downloaded) (Mux_exits 1 [] ''No space left on device'' False) (\<lambda>p. None)"

definition world_cleanup_fails :: env where
  "world_cleanup_fails =
     sample_env (\<lambda>f. Downloaded) (Mux_exits 0 [] [] True)
       (\<lambda>p. Some (OSError (''[Errno 13] Permission denied: '' @ [CHR 0x27] @ p @ [CHR 0x27])))"

definition world_interrupted :: env where
  "world_interrupted =
     sample_env
       (\<lambda>f. if f = ''aqz-KE-bpKQ_audio.mp4'' then Download_raises True KeyboardInterrupt
            else Downloaded)
       (Mux_exits 0 [] [] True) (\<lambda>p. None)"

text \<open>A video whose collection of streams is empty, and a world that serves it.\<close>

definition world_no_streams :: env where
  "world_no_streams = world_ok\<lparr>catalogue := (\<lambda>url. Inr (sample_video\<lparr>fmt_streams := []\<rparr>))\<rparr>"

section \<open>The resolutions on offer\<close>

lemma set_keep_first: "set (keep_first xs) = set xs"
  by (induction xs) auto

lemma distinct_keep_first: "distinct (keep_first xs)"
  by (induction xs) (auto simp: set_keep_first)

lemma sorted_wrt_keep_first: "sorted_wrt P xs \<Longrightarrow> sorted_wrt P (keep_first xs)"
  by (induction xs) (auto simp: set_keep_first sorted_wrt_filter)

lemma labels_of_Nil: "labels_of [] = []"
  by (simp add: labels_of_def)

lemma labels_of_Cons:
  "labels_of (s # ss) =
     (case resolution s of None \<Rightarrow> labels_of ss
      | Some r \<Rightarrow> if r \<noteq> [] then r # labels_of ss else labels_of ss)"
  by (simp add: labels_of_def split: option.splits)

lemma list_resolutions_fst:
  "fst (list_resolutions ss (rs, pr)) =
     rs @ filter (\<lambda>r. r \<notin> set rs) (keep_first (labels_of ss))"
proof (induction ss arbitrary: rs pr)
  case Nil
  then show ?case by (simp add: labels_of_Nil)
next
  case (Cons s ss)
  show ?case
  proof (cases "resolution s")
    case None
    then show ?thesis using Cons.IH by (simp add: labels_of_Cons)
  next
    case (Some r)
    show ?thesis
    proof (cases "r \<noteq> [] \<and> r \<notin> set rs")
      case True
      have "filter (\<lambda>x. x \<noteq> r \<and> x \<notin> set rs) (keep_first (labels_of ss)) =
            filter (\<lambda>x. x \<notin> set rs \<and> x \<noteq> r) (keep_first (labels_of ss))"
        by (rule filter_cong) auto
      with True Some show ?thesis using Cons.IH [of "rs @ [r]"]
        by (simp add: labels_of_Cons)
    next
      case False
      have "r \<in> set rs \<Longrightarrow> filter (\<lambda>x. x \<noteq> r \<and> x \<notin> set rs) (keep_first (labels_of ss)) =
            filter (\<lambda>x. x \<notin> set rs) (keep_first (labels_of ss))"
        by (rule filter_cong) auto
      with False Some show ?thesis using Cons.IH [of rs]
        by (auto simp add: labels_of_Cons)
    qed
  qed
qed

lemma availableResolutions_keep_first:
  "availableResolutions key ss = keep_first (labels_of (video_streams_query key ss))"
  by (simp add: availableResolutions_def list_resolutions_fst)

lemma order_by_desc_sorted:
  "sorted_wrt (\<lambda>s t. key (the (attribute t)) \<le> key (the (attribute s)))
     (desc (order_by key attribute ss))"
proof -
  let ?f = "\<lambda>s. key (the (attribute s))"
  have "sorted (map ?f (sort_key ?f (filter (\<lambda>s. attribute s \<noteq> None) ss)))"
    by (rule sorted_sort_key)
  then have "sorted_wrt (\<lambda>s t. ?f s \<le> ?f t) (sort_key ?f (filter (\<lambda>s. attribute s \<noteq> None) ss))"
    by (simp add: sorted_wrt_map)
  then show ?thesis
    by (simp add: desc_def order_by_def sorted_wrt_rev)
qed

lemma order_by_desc_set:
  "set (desc (order_by key attribute ss)) = {s \<in> set ss. attribute s \<noteq> None}"
  by (auto simp: desc_def order_by_def)

lemma labels_of_map:
  "\<forall>s \<in> set ss. resolution s \<noteq> None \<Longrightarrow>
     labels_of ss = filter (\<lambda>r. r \<noteq> []) (map (\<lambda>s. the (resolution s)) ss)"
  by (induction ss) (auto simp: labels_of_Cons labels_of_Nil)

lemma labels_descending:
  "sorted_wrt (\<lambda>a b. key b \<le> key a) (labels_of (video_streams_query key ss))"
proof -
  let ?vs = "video_streams_query key ss"
  have 1: "\<forall>s \<in> set ?vs. resolution s \<noteq> None"
    by (simp add: video_streams_query_def order_by_desc_set)
  have "sorted_wrt (\<lambda>s t. key (the (resolution t)) \<le> key (the (resolution s))) ?vs"
    unfolding video_streams_query_def by (rule order_by_desc_sorted)
  then have "sorted_wrt (\<lambda>a b. key b \<le> key a) (map (\<lambda>s. the (resolution s)) ?vs)"
    by (simp add: sorted_wrt_map)
  then show ?thesis
    by (simp add: labels_of_map [OF 1] sorted_wrt_filter)
qed

lemma strict_of_distinct:
  "sorted_wrt (\<lambda>a b. key b \<le> key a) xs \<Longrightarrow> distinct xs \<Longrightarrow> inj_on key (set xs)
     \<Longrightarrow> sorted_wrt (\<lambda>a b. (key b :: nat) < key a) xs"
proof (induction xs)
  case Nil
  then show ?case by simp
next
  case (Cons x xs)
  then show ?case
    by (auto simp: inj_on_def intro!: le_neq_trans)
qed

lemma scenario_resolutions:
  "availableResolutions digits_value scenario = [''1080p'', ''720p'']"
  by (simp add: availableResolutions_def scenario_def video_only_def audio_only_def
     video_streams_query_def desc_def order_by_def only_video_def file_extension_def
     digits_value_def nat_of_digits_def is_digit_def)

lemma set_labels_of: "set (labels_of ss) \<subseteq> {l. \<exists>s \<in> set ss. resolution s = Some l}"
  by (induction ss) (auto simp: labels_of_Nil labels_of_Cons split: option.splits)

lemma set_video_streams_query: "set (video_streams_query key ss) \<subseteq> set ss"
  by (auto simp: video_streams_query_def order_by_desc_set)

lemma digit_value_inj:
  "is_digit c \<Longrightarrow> is_digit d \<Longrightarrow> (of_char c :: nat) - 48 = of_char d - 48 \<Longrightarrow> c = d"
  by (auto simp: is_digit_def)

lemma digit_value_less: "is_digit c \<Longrightarrow> (of_char c :: nat) - 48 < 10"
  by (auto simp: is_digit_def)

lemma digit_value_zero: "is_digit c \<Longrightarrow> (of_char c :: nat) - 48 = 0 \<Longrightarrow> c = CHR ''0''"
  by (auto simp: is_digit_def)

lemma nat_of_digits_snoc:
  "nat_of_digits (ds @ [c]) = 10 * nat_of_digits ds + (of_char c - 48)"
  by (simp add: nat_of_digits_def)

lemma nat_of_digits_pos:
  "ds \<noteq> [] \<Longrightarrow> list_all is_digit ds \<Longrightarrow> hd ds \<noteq> CHR ''0'' \<Longrightarrow> 0 < nat_of_digits ds"
proof (induction ds rule: rev_induct)
  case Nil
  then show ?case by simp
next
  case (snoc c ds)
  show ?case
  proof (cases "ds = []")
    case True
    with snoc.prems have "is_digit c" and "c \<noteq> CHR ''0''" by simp_all
    then have "(of_char c :: nat) - 48 \<noteq> 0" using digit_value_zero by blast
    with True show ?thesis by (simp add: nat_of_digits_def)
  next
    case False
    with snoc.prems have "list_all is_digit ds" and "hd ds \<noteq> CHR ''0''" by simp_all
    with False snoc.IH have "0 < nat_of_digits ds" by simp
    then show ?thesis by (simp add: nat_of_digits_snoc)
  qed
qed

lemma nat_of_digits_inj:
  "list_all is_digit xs \<Longrightarrow> (xs \<noteq> [] \<longrightarrow> hd xs \<noteq> CHR ''0'') \<Longrightarrow>
   list_all is_digit ys \<Longrightarrow> (ys \<noteq> [] \<longrightarrow> hd ys \<noteq> CHR ''0'') \<Longrightarrow>
   nat_of_digits xs = nat_of_digits ys \<Longrightarrow> xs = ys"
proof (induction xs arbitrary: ys rule: rev_induct)
  case Nil
  show ?case
  proof (cases "ys = []")
    case True
    then show ?thesis by simp
  next
    case False
    with Nil.prems have "0 < nat_of_digits ys" by (simp add: nat_of_digits_pos)
    with Nil.prems show ?thesis by (simp add: nat_of_digits_def)
  qed
next
  case (snoc c xs)
  have pos: "0 < nat_of_digits (xs @ [c])"
    using snoc.prems by (intro nat_of_digits_pos) simp_all
  show ?case
  proof (cases ys rule: rev_cases)
    case Nil
    with pos snoc.prems show ?thesis by (simp add: nat_of_digits_def)
  next
    case (snoc ys' d)
    from snoc.prems(1) have c: "is_digit c" and xs: "list_all is_digit xs" by simp_all
    from snoc.prems(3) snoc have d: "is_digit d" and ys': "list_all is_digit ys'" by simp_all
    from snoc.prems(5) snoc have
      eq: "10 * nat_of_digits xs + (of_char c - 48) = 10 * nat_of_digits ys' + (of_char d - 48)"
      by (simp add: nat_of_digits_snoc)
    from digit_value_less [OF c] digit_value_less [OF d] eq
    have "(of_char c :: nat) - 48 = of_char d - 48" and v: "nat_of_digits xs = nat_of_digits ys'"
      by presburger+
    with c d have "c = d" using digit_value_inj by blast
    moreover from snoc.prems(2) have "xs \<noteq> [] \<longrightarrow> hd xs \<noteq> CHR ''0''" by auto
    moreover from snoc.prems(4) snoc have "ys' \<noteq> [] \<longrightarrow> hd ys' \<noteq> CHR ''0''" by auto
    ultimately show ?thesis using snoc.IH [OF xs _ ys' _ v] snoc by simp
  qed
qed

lemma label_digits:
  assumes "resolution_label l"
  shows "l = butlast l @ [CHR ''p'']" and "list_all is_digit (butlast l)"
    and "butlast l \<noteq> []" and "hd (butlast l) \<noteq> CHR ''0''"
proof -
  from assms have ne: "l \<noteq> []" and "last l = CHR ''p''" and b: "butlast l \<noteq> []"
    and d: "list_all is_digit (butlast l)" and h: "hd l \<noteq> CHR ''0''"
    by (simp_all add: resolution_label_def)
  then show eq: "l = butlast l @ [CHR ''p'']" using append_butlast_last_id [OF ne] by simp
  show "list_all is_digit (butlast l)" by (rule d)
  show "butlast l \<noteq> []" by (rule b)
  from b have "hd (butlast l @ [CHR ''p'']) = hd (butlast l)" by simp
  with eq h show "hd (butlast l) \<noteq> CHR ''0''" by simp
qed

lemma filter_digits_snoc_p:
  "list_all is_digit ds \<Longrightarrow> filter is_digit (ds @ [CHR ''p'']) = ds"
  by (induction ds) (simp_all add: is_digit_def)

lemma digits_value_label:
  assumes "resolution_label l"
  shows "digits_value l = nat_of_digits (butlast l)"
proof -
  from label_digits(1,2) [OF assms]
  have "filter is_digit l = butlast l" using filter_digits_snoc_p by metis
  then show ?thesis by (simp add: digits_value_def)
qed

lemma digits_value_inj:
  assumes "resolution_label a" and "resolution_label b" and "digits_value a = digits_value b"
  shows "a = b"
proof -
  note a = label_digits [OF assms(1)] and b = label_digits [OF assms(2)]
  from assms have "nat_of_digits (butlast a) = nat_of_digits (butlast b)"
    by (simp add: digits_value_label)
  with a(2,4) b(2,4) have "butlast a = butlast b" by (intro nat_of_digits_inj) simp_all
  with a(1) b(1) show ?thesis by metis
qed

lemma catalogue_labels_inj:
  assumes "list_all catalogue_stream ss"
  shows "inj_on digits_value (set (availableResolutions digits_value ss))"
proof (rule inj_onI)
  fix a b
  assume a: "a \<in> set (availableResolutions digits_value ss)"
    and b: "b \<in> set (availableResolutions digits_value ss)"
    and eq: "digits_value a = digits_value b"
  have "\<And>l. l \<in> set (availableResolutions digits_value ss) \<Longrightarrow> resolution_label l"
  proof -
    fix l assume "l \<in> set (availableResolutions digits_value ss)"
    then have "l \<in> set (labels_of (video_streams_query digits_value ss))"
      by (simp add: availableResolutions_keep_first set_keep_first)
    with set_labels_of obtain s where "s \<in> set (video_streams_query digits_value ss)"
      and "resolution s = Some l" by blast
    with set_video_streams_query have "s \<in> set ss" by blast
    with assms have "catalogue_stream s" by (simp add: list_all_iff)
    with \<open>resolution s = Some l\<close> show "resolution_label l" by (simp add: catalogue_stream_def)
  qed
  with a b eq show "a = b" using digits_value_inj by blast
qed

lemma scenario_catalogue: "list_all catalogue_stream scenario"
  by (simp add: scenario_def catalogue_stream_def resolution_label_def video_only_def
      audio_only_def is_digit_def)

text \<open>
  Claim C1. For the streams of the catalogue, whose resolution labels are numbers
  followed by \<^verbatim>\<open>p\<close>, the labels that \<^verbatim>\<open>select_resolution\<close> lists for the adaptive,
  video-only mp4 streams ordered by resolution descending are free of duplicates, descend
  strictly in the number they spell, and are the labels of that sequence with the first
  occurrence of each kept.
\<close>

theorem availableResolutions_descending_distinct:
  "list_all catalogue_stream ss \<longrightarrow>
     distinct (availableResolutions digits_value ss) \<and>
     sorted_wrt (\<lambda>a b. digits_value b < digits_value a) (availableResolutions digits_value ss) \<and>
     availableResolutions digits_value ss =
       keep_first (labels_of (video_streams_query digits_value ss))"
proof
  assume c: "list_all catalogue_stream ss"
  have d: "distinct (availableResolutions digits_value ss)"
    by (simp add: availableResolutions_keep_first distinct_keep_first)
  have "sorted_wrt (\<lambda>a b. digits_value b \<le> digits_value a) (availableResolutions digits_value ss)"
    using labels_descending [of digits_value ss]
    by (simp add: availableResolutions_keep_first sorted_wrt_keep_first)
  then have "sorted_wrt (\<lambda>a b. digits_value b < digits_value a)
      (availableResolutions digits_value ss)"
    using d catalogue_labels_inj [OF c] by (rule strict_of_distinct)
  with d show "distinct (availableResolutions digits_value ss) \<and>
     sorted_wrt (\<lambda>a b. digits_value b < digits_value a) (availableResolutions digits_value ss) \<and>
     availableResolutions digits_value ss =
       keep_first (labels_of (video_streams_query digits_value ss))"
    by (simp add: availableResolutions_keep_first)
qed

theorem availableResolutions_descending_distinct_witness:
  "list_all catalogue_stream scenario \<and>
   availableResolutions digits_value scenario = [''1080p'', ''720p''] \<and>
   distinct (availableResolutions digits_value scenario) \<and>
   sorted_wrt (\<lambda>a b. digits_value b < digits_value a)
     (availableResolutions digits_value scenario)"
  using availableResolutions_descending_distinct [of scenario] scenario_catalogue
    scenario_resolutions
  by blast

section \<open>The audio stream\<close>

lemma audio_stream_query_max:
  "(case audio_stream_query key ss of
      None \<Rightarrow> audio_candidates ss = []
    | Some a \<Rightarrow> a \<in> set (audio_candidates ss) \<and>
        (\<forall>c \<in> set (audio_candidates ss). key (the (abr c)) \<le> key (the (abr a))))"
proof -
  define xs where
    "xs = desc (order_by key abr (filter (\<lambda>s. only_audio s \<and> file_extension ''mp4'' s) ss))"
  have set: "set xs = set (audio_candidates ss)"
    unfolding xs_def by (auto simp: order_by_desc_set audio_candidates_def)
  have sorted: "sorted_wrt (\<lambda>s t. key (the (abr t)) \<le> key (the (abr s))) xs"
    unfolding xs_def by (rule order_by_desc_sorted)
  have q: "audio_stream_query key ss = first xs"
    unfolding xs_def audio_stream_query_def ..
  show ?thesis
  proof (cases xs)
    case Nil
    with set have "audio_candidates ss = []" by simp
    with Nil q show ?thesis by (simp add: first_def)
  next
    case (Cons a rest)
    from sorted Cons have "\<forall>c \<in> set xs. key (the (abr c)) \<le> key (the (abr a))"
      by auto
    moreover from Cons have "a \<in> set xs" by simp
    moreover from Cons q have "audio_stream_query key ss = Some a" by (simp add: first_def)
    ultimately show ?thesis unfolding set by simp
  qed
qed

lemma scenario_audio_candidates:
  "audio_candidates scenario = [audio_only 4 ''128kbps'', audio_only 5 ''256kbps'']"
  by (simp add: audio_candidates_def scenario_def video_only_def audio_only_def
     only_audio_def file_extension_def)

lemma scenario_audio_stream:
  "audio_stream_query digits_value scenario = Some (audio_only 5 ''256kbps'')"
  by (simp add: audio_stream_query_def first_def scenario_def video_only_def audio_only_def
     desc_def order_by_def only_audio_def file_extension_def
     digits_value_def nat_of_digits_def is_digit_def)

text \<open>
  Claim C3. The audio stream that \<^verbatim>\<open>main\<close> resolves does not depend on the resolution
  chosen: any two labels give the same one. When there is one, it is an audio-only mp4
  stream with a bitrate, and no such stream has a greater bitrate (the catalogue compares
  the numbers in the \<^verbatim>\<open>abr\<close> labels); there is none only when the collection has no
  such stream.
\<close>

theorem resolveDescriptors_audio_max:
  "snd (resolveDescriptors w yt label) = snd (resolveDescriptors w yt label') \<and>
   (case snd (resolveDescriptors w yt label) of
      None \<Rightarrow> audio_candidates (fmt_streams yt) = []
    | Some a \<Rightarrow> a \<in> set (audio_candidates (fmt_streams yt)) \<and>
        (\<forall>c \<in> set (audio_candidates (fmt_streams yt)).
           abr_key w (the (abr c)) \<le> abr_key w (the (abr a))))"
  using audio_stream_query_max [where key = "abr_key w" and ss = "fmt_streams yt"]
  by (simp add: resolveDescriptors_def)

theorem resolveDescriptors_audio_max_witness:
  "snd (resolveDescriptors (sample_env (\<lambda>f. Downloaded) (Mux_exits 0 [] [] True) (\<lambda>p. None)) sample_video
          ''1080p'') =
     Some (audio_only 5 ''256kbps'') \<and>
   snd (resolveDescriptors (sample_env (\<lambda>f. Downloaded) (Mux_exits 0 [] [] True) (\<lambda>p. None)) sample_video
          ''720p'') =
     Some (audio_only 5 ''256kbps'') \<and>
   audio_only 5 ''256kbps'' \<in> set (audio_candidates (fmt_streams sample_video)) \<and>
   digits_value (the (abr (audio_only 4 ''128kbps''))) \<le>
     digits_value (the (abr (audio_only 5 ''256kbps'')))"
  using resolveDescriptors_audio_max
    [of "sample_env (\<lambda>f. Downloaded) (Mux_exits 0 [] [] True) (\<lambda>p. None)" sample_video "''1080p''" "''720p''"]
  by (simp add: resolveDescriptors_def sample_env_def sample_video_def scenario_audio_stream
     scenario_audio_candidates audio_only_def digits_value_def nat_of_digits_def is_digit_def)

section \<open>The selection loop\<close>

lemma select_turn_Line:
  assumes "shd (console s) = Line text"
  shows "select_turn resolucoes s =
     (case py_int text of
        None \<Rightarrow> (Inr None, print Numero_invalido (s\<lparr>console := stl (console s)\<rparr>))
      | Some i \<Rightarrow>
          if 1 \<le> i \<and> i \<le> int (length resolucoes)
          then (Inr (Some (resolucoes ! nat (i - 1))), s\<lparr>console := stl (console s)\<rparr>)
          else (Inr None, print Opcao_invalida (s\<lparr>console := stl (console s)\<rparr>)))"
  using assms
  by (auto simp: select_turn_def input_def except_ValueError_def py_index_def Let_def
      split: option.splits)

lemma select_loop_Line:
  assumes "shd (console s) = Line text"
  shows "select_loop resolucoes s =
     (case py_int text of
        None \<Rightarrow> select_loop resolucoes (print Numero_invalido (s\<lparr>console := stl (console s)\<rparr>))
      | Some i \<Rightarrow>
          if 1 \<le> i \<and> i \<le> int (length resolucoes)
          then Some (Inr (resolucoes ! nat (i - 1)), s\<lparr>console := stl (console s)\<rparr>)
          else select_loop resolucoes (print Opcao_invalida (s\<lparr>console := stl (console s)\<rparr>)))"
  by (subst select_loop.simps) (simp add: select_turn_Line [OF assms] split: option.splits)

lemma select_turn_member:
  "select_turn resolucoes s = (Inr (Some r), s') \<Longrightarrow> r \<in> set resolucoes"
  by (auto simp: select_turn_def input_def except_ValueError_def py_index_def Let_def external_def
      split: option.splits console_event.splits if_splits sum.splits prod.splits)

lemma select_loop_member:
  assumes "select_loop resolucoes s = Some y"
  shows "\<forall>r s'. y = (Inr r, s') \<longrightarrow> r \<in> set resolucoes"
  using assms
proof (rule select_loop.raw_induct [rotated])
  fix loop rs s y
  assume IH: "\<And>rs s y. loop rs s = Some y \<Longrightarrow> \<forall>r s'. y = (Inr r, s') \<longrightarrow> r \<in> set rs"
    and body: "(case select_turn rs s of (Inl e, s') \<Rightarrow> Some (Inl e, s')
      | (Inr None, s') \<Rightarrow> loop rs s'
      | (Inr (Some resolucao), s') \<Rightarrow> Some (Inr resolucao, s')) = Some y"
  show "\<forall>r s'. y = (Inr r, s') \<longrightarrow> r \<in> set rs"
    using body IH
    by (auto split: prod.splits sum.splits option.splits dest: select_turn_member)
qed

lemma only_lines_shd: "only_lines c \<Longrightarrow> \<exists>t. shd c = Line t"
proof -
  assume "only_lines c"
  then have "shd c \<noteq> Ctrl_C \<and> shd c \<noteq> End_of_input"
    unfolding only_lines_def using shd_sset [of c] by blast
  then show ?thesis by (cases "shd c") simp_all
qed

lemma only_lines_stl: "only_lines c \<Longrightarrow> only_lines (stl c)"
  unfolding only_lines_def by (auto dest: stl_sset)

lemma select_turn_only_lines:
  assumes "only_lines (console s)"
  shows "\<exists>x s'. select_turn resolucoes s = (Inr x, s') \<and> only_lines (console s') \<and>
           (resolucoes = [] \<longrightarrow> x = None)"
proof -
  from only_lines_shd [OF assms] obtain t where t: "shd (console s) = Line t" ..
  show ?thesis
  proof (cases "py_int t")
    case None
    then show ?thesis
      using only_lines_stl [OF assms] by (simp add: select_turn_Line [OF t] print_def)
  next
    case (Some i)
    then show ?thesis
      using only_lines_stl [OF assms] by (auto simp: select_turn_Line [OF t] print_def)
  qed
qed

lemma select_loop_only_lines:
  assumes "select_loop resolucoes s = Some y"
  shows "only_lines (console s) \<longrightarrow> resolucoes \<noteq> [] \<and> (\<exists>r s'. y = (Inr r, s'))"
  using assms
proof (rule select_loop.raw_induct [rotated])
  fix loop rs s y
  assume IH: "\<And>rs s y. loop rs s = Some y \<Longrightarrow>
      only_lines (console s) \<longrightarrow> rs \<noteq> [] \<and> (\<exists>r s'. y = (Inr r, s'))"
    and body: "(case select_turn rs s of (Inl e, s') \<Rightarrow> Some (Inl e, s')
      | (Inr None, s') \<Rightarrow> loop rs s'
      | (Inr (Some resolucao), s') \<Rightarrow> Some (Inr resolucao, s')) = Some y"
  show "only_lines (console s) \<longrightarrow> rs \<noteq> [] \<and> (\<exists>r s'. y = (Inr r, s'))"
  proof
    assume a: "only_lines (console s)"
    from select_turn_only_lines [OF a, of rs]
    obtain x s1 where turn: "select_turn rs s = (Inr x, s1)" and s1: "only_lines (console s1)"
      and x: "rs = [] \<longrightarrow> x = None"
      by blast
    show "rs \<noteq> [] \<and> (\<exists>r s'. y = (Inr r, s'))"
    proof (cases x)
      case None
      with body turn have "loop rs s1 = Some y" by simp
      from IH [OF this] s1 show ?thesis by simp
    next
      case (Some r)
      with body turn x show ?thesis by auto
    qed
  qed
qed

lemma select_loop_empty: "only_lines (console s) \<Longrightarrow> select_loop [] s = None"
  using select_loop_only_lines [of "[]" s] by (cases "select_loop [] s") auto

lemma py_int_2: "py_int ''2'' = Some 2"
  by (simp add: py_int_def is_int_space_def is_digit_def nat_of_digits_def
      int_max_str_digits_def)

lemma py_int_0: "py_int ''0'' = Some 0"
  by (simp add: py_int_def is_int_space_def is_digit_def nat_of_digits_def
      int_max_str_digits_def)

lemma py_int_7: "py_int ''7'' = Some 7"
  by (simp add: py_int_def is_int_space_def is_digit_def nat_of_digits_def
      int_max_str_digits_def)

lemma py_int_abc: "py_int ''abc'' = None"
  by (simp add: py_int_def is_int_space_def is_digit_def)

lemma select_loop_rejected:
  "console s = map Line ts @- c \<Longrightarrow> list_all (rejected resolucoes) ts \<Longrightarrow>
     select_loop resolucoes s = select_loop resolucoes (s\<lparr>console := c, out := out s @ map reply ts\<rparr>)"
proof (induction ts arbitrary: s)
  case Nil
  then have "s\<lparr>console := c, out := out s @ map reply []\<rparr> = s" by simp
  then show ?case by simp
next
  case (Cons t ts)
  let ?s1 = "s\<lparr>console := stl (console s), out := out s @ [reply t]\<rparr>"
  from Cons.prems(1) have hd: "shd (console s) = Line t" and tl: "console ?s1 = map Line ts @- c"
    by simp_all
  from Cons.prems(2) have r: "rejected resolucoes t" and rs: "list_all (rejected resolucoes) ts"
    by simp_all
  from r have "select_loop resolucoes s = select_loop resolucoes ?s1"
    by (auto simp: select_loop_Line [OF hd] rejected_def reply_def print_def
        split: option.splits)
  also have "\<dots> = select_loop resolucoes (?s1\<lparr>console := c, out := out ?s1 @ map reply ts\<rparr>)"
    using tl rs by (rule Cons.IH)
  finally show ?case by simp
qed

lemma select_loop_accepted:
  assumes "console s = map Line ts @- (Line t ## c)" and "list_all (rejected resolucoes) ts"
    and "py_int t = Some i" and "1 \<le> i" and "i \<le> int (length resolucoes)"
  shows "select_loop resolucoes s =
     Some (Inr (resolucoes ! nat (i - 1)), s\<lparr>console := c, out := out s @ map reply ts\<rparr>)"
proof -
  let ?s1 = "s\<lparr>console := Line t ## c, out := out s @ map reply ts\<rparr>"
  have "select_loop resolucoes s = select_loop resolucoes ?s1"
    using assms(1,2) by (rule select_loop_rejected)
  also have "\<dots> = Some (Inr (resolucoes ! nat (i - 1)), ?s1\<lparr>console := stl (console ?s1)\<rparr>)"
    using assms(3-5) by (simp add: select_loop_Line [of ?s1 t])
  finally show ?thesis by simp
qed

lemma only_lines_typing: "only_lines (console (typing text))"
  by (simp add: only_lines_def typing_def)

lemma shd_typing: "shd (console (typing text)) = Line text"
  by (simp add: typing_def)

lemma stl_typing: "(typing text)\<lparr>console := stl (console (typing text))\<rparr> = typing text"
  by (simp add: typing_def)

text \<open>
  Claim C2, as amended. In the loop of \<^verbatim>\<open>select_resolution\<close> over the list it
  presented, a typed line that \<^verbatim>\<open>int\<close> reads as an ordinal between 1 and the length of
  the list makes the function return the label at that position, counted from 1. A line
  that is not a number is answered by the message asking for a valid number, a number out
  of range by the message for an invalid option, and in both cases the loop goes round
  again on the rest of the input. So after any lines that are not accepted, each answered
  by its message, an accepted line returns its label. As long as lines are typed the loop
  raises nothing: when it ends, it ends by returning a label.
\<close>

theorem select_loop_ordinal:
  "(shd (console s) = Line line \<longrightarrow>
      select_loop resolucoes s =
        (case py_int line of
           None \<Rightarrow>
             select_loop resolucoes
               (s\<lparr>console := stl (console s), out := out s @ [Numero_invalido]\<rparr>)
         | Some n \<Rightarrow>
             if 1 \<le> n \<and> n \<le> int (length resolucoes)
             then Some (Inr (resolucoes ! nat (n - 1)), s\<lparr>console := stl (console s)\<rparr>)
             else select_loop resolucoes
                    (s\<lparr>console := stl (console s), out := out s @ [Opcao_invalida]\<rparr>))) \<and>
   (console s = map Line ts @- (Line t ## c) \<and> list_all (rejected resolucoes) ts \<and>
      py_int t = Some i \<and> 1 \<le> i \<and> i \<le> int (length resolucoes) \<longrightarrow>
      select_loop resolucoes s =
        Some (Inr (resolucoes ! nat (i - 1)), s\<lparr>console := c, out := out s @ map reply ts\<rparr>)) \<and>
   (only_lines (console s) \<longrightarrow>
      (\<forall>y. select_loop resolucoes s = Some y \<longrightarrow> (\<exists>r s'. y = (Inr r, s'))))"
proof (intro conjI impI)
  assume "shd (console s) = Line line"
  then show "select_loop resolucoes s =
        (case py_int line of
           None \<Rightarrow>
             select_loop resolucoes
               (s\<lparr>console := stl (console s), out := out s @ [Numero_invalido]\<rparr>)
         | Some n \<Rightarrow>
             if 1 \<le> n \<and> n \<le> int (length resolucoes)
             then Some (Inr (resolucoes ! nat (n - 1)), s\<lparr>console := stl (console s)\<rparr>)
             else select_loop resolucoes
                    (s\<lparr>console := stl (console s), out := out s @ [Opcao_invalida]\<rparr>))"
    by (simp add: select_loop_Line print_def split: option.splits)
next
  assume "console s = map Line ts @- (Line t ## c) \<and> list_all (rejected resolucoes) ts \<and>
      py_int t = Some i \<and> 1 \<le> i \<and> i \<le> int (length resolucoes)"
  then show "select_loop resolucoes s =
        Some (Inr (resolucoes ! nat (i - 1)), s\<lparr>console := c, out := out s @ map reply ts\<rparr>)"
    by (simp add: select_loop_accepted)
next
  assume "only_lines (console s)"
  then show "\<forall>y. select_loop resolucoes s = Some y \<longrightarrow> (\<exists>r s'. y = (Inr r, s'))"
    using select_loop_only_lines [of resolucoes s] by blast
qed

theorem select_loop_ordinal_witness:
  "shd (console ((typing ''2'')\<lparr>console := Line ''abc'' ## Line ''7'' ## Line ''2'' ## sconst (Line ''2'')\<rparr>)) =
     Line ''abc'' \<and>
   list_all (rejected [''1080p'', ''720p'']) [''abc'', ''7''] \<and>
   map reply [''abc'', ''7''] = [Numero_invalido, Opcao_invalida] \<and>
   py_int ''2'' = Some 2 \<and>
   only_lines (console ((typing ''2'')\<lparr>console := Line ''abc'' ## Line ''7'' ## Line ''2'' ## sconst (Line ''2'')\<rparr>)) \<and>
   select_loop [''1080p'', ''720p'']
     ((typing ''2'')\<lparr>console := Line ''abc'' ## Line ''7'' ## Line ''2'' ## sconst (Line ''2'')\<rparr>) =
     Some (Inr ''720p'', (typing ''2'')\<lparr>out := [Numero_invalido, Opcao_invalida]\<rparr>)"
proof -
  let ?s = "(typing ''2'')\<lparr>console := Line ''abc'' ## Line ''7'' ## Line ''2'' ## sconst (Line ''2'')\<rparr>"
  have rej: "list_all (rejected [''1080p'', ''720p'']) [''abc'', ''7'']"
    by (simp add: rejected_def py_int_abc py_int_7)
  have rep: "map reply [''abc'', ''7''] = [Numero_invalido, Opcao_invalida]"
    by (simp add: reply_def py_int_abc py_int_7)
  have con: "console ?s = map Line [''abc'', ''7''] @- (Line ''2'' ## sconst (Line ''2''))"
    by simp
  have lines: "only_lines (console ?s)"
    by (simp add: only_lines_def)
  have "select_loop [''1080p'', ''720p''] ?s =
     Some (Inr ([''1080p'', ''720p''] ! nat (2 - 1)),
       ?s\<lparr>console := sconst (Line ''2''), out := out ?s @ map reply [''abc'', ''7'']\<rparr>)"
    using select_loop_ordinal [where s = ?s and resolucoes = "[''1080p'', ''720p'']"
        and ts = "[''abc'', ''7'']" and t = "''2''" and c = "sconst (Line ''2'')" and i = 2]
      rej con py_int_2
    by simp
  then have "select_loop [''1080p'', ''720p''] ?s =
     Some (Inr ''720p'', (typing ''2'')\<lparr>out := [Numero_invalido, Opcao_invalida]\<rparr>)"
    using rep by (simp add: typing_def)
  with rej rep lines py_int_2 show ?thesis by simp
qed

text \<open>
  Claim C2 as it is stated fails for an input that ends: \<^verbatim>\<open>input\<close> then raises
  \<^verbatim>\<open>EOFError\<close>, which the handler for \<^verbatim>\<open>ValueError\<close> does not catch, and the exception
  leaves \<^verbatim>\<open>select_resolution\<close>. Here the standard input holds the line \<^verbatim>\<open>abc\<close> and
  ends.
\<close>

theorem select_loop_end_of_input_counterexample:
  "select_loop [''1080p'', ''720p''] (piped [''abc'']) =
     Some (Inl EOFError, (piped [])\<lparr>out := [Numero_invalido]\<rparr>)"
proof -
  have 1: "select_loop [''1080p'', ''720p''] (piped [''abc'']) =
      select_loop [''1080p'', ''720p''] ((piped [])\<lparr>out := [Numero_invalido]\<rparr>)"
    by (simp add: select_loop_Line [of _ "''abc''"] py_int_abc piped_def print_def)
  have 2: "select_turn [''1080p'', ''720p''] ((piped [])\<lparr>out := [Numero_invalido]\<rparr>) =
      (Inl EOFError, (piped [])\<lparr>out := [Numero_invalido]\<rparr>)"
    by (simp add: select_turn_def input_def piped_def external_def delivered_def
        except_ValueError_def)
  show ?thesis
    unfolding 1 by (subst select_loop.simps) (simp add: 2)
qed

text \<open>
  Claim C10. What \<^verbatim>\<open>select_resolution\<close> returns is one of the labels it listed. An
  ordinal of 0 or less is answered by the message for an invalid option and another
  turn of the loop: it is not used as an index from the end of the list. When no label is
  listed and lines are typed for ever, \<^verbatim>\<open>select_resolution\<close> does not return.
\<close>

theorem select_resolution_member:
  "(\<forall>r s'. select_resolution video_streams s = Some (Inr r, s') \<longrightarrow>
      r \<in> set (fst (list_resolutions video_streams ([], [Resolucoes_disponiveis])))) \<and>
   (\<forall>text i. shd (console s) = Line text \<and> py_int text = Some i \<and> i \<le> 0 \<longrightarrow>
      select_turn resolucoes s =
        (Inr None, print Opcao_invalida (s\<lparr>console := stl (console s)\<rparr>))) \<and>
   (fst (list_resolutions video_streams ([], [Resolucoes_disponiveis])) = [] \<and>
      only_lines (console s) \<longrightarrow> select_resolution video_streams s = None)"
proof (intro conjI allI impI)
  fix r s'
  assume "select_resolution video_streams s = Some (Inr r, s')"
  then show "r \<in> set (fst (list_resolutions video_streams ([], [Resolucoes_disponiveis])))"
    by (auto simp: select_resolution_def split: prod.splits dest: select_loop_member)
next
  fix t i
  assume "shd (console s) = Line t \<and> py_int t = Some i \<and> i \<le> 0"
  then show "select_turn resolucoes s =
      (Inr None, print Opcao_invalida (s\<lparr>console := stl (console s)\<rparr>))"
    by (simp add: select_turn_Line)
next
  assume "fst (list_resolutions video_streams ([], [Resolucoes_disponiveis])) = [] \<and>
      only_lines (console s)"
  then show "select_resolution video_streams s = None"
    by (auto simp: select_resolution_def select_loop_empty split: prod.splits)
qed

theorem select_resolution_member_witness:
  "select_resolution (video_streams_query digits_value scenario) (typing ''2'') =
     Some (Inr ''720p'',
       (typing ''2'')\<lparr>out := [Resolucoes_disponiveis, Resolucao_item 1 ''1080p'',
          Resolucao_item 2 ''720p'', Fim_resolucoes]\<rparr>) \<and>
   ''720p'' \<in> set (fst (list_resolutions (video_streams_query digits_value scenario)
       ([], [Resolucoes_disponiveis]))) \<and>
   shd (console (typing ''0'')) = Line ''0'' \<and> py_int ''0'' = Some 0 \<and>
   select_turn [''1080p'', ''720p''] (typing ''0'') = (Inr None, print Opcao_invalida (typing ''0'')) \<and>
   fst (list_resolutions [] ([], [Resolucoes_disponiveis])) = [] \<and>
   only_lines (console (typing ''0'')) \<and>
   select_resolution [] (typing ''0'') = None"
proof -
  have vs: "list_resolutions (video_streams_query digits_value scenario)
      ([], [Resolucoes_disponiveis]) =
      ([''1080p'', ''720p''],
       [Resolucoes_disponiveis, Resolucao_item 1 ''1080p'', Resolucao_item 2 ''720p''])"
    by (simp add: scenario_def video_only_def audio_only_def
     video_streams_query_def desc_def order_by_def only_video_def file_extension_def
     digits_value_def nat_of_digits_def is_digit_def)
  have sel: "select_resolution (video_streams_query digits_value scenario) (typing ''2'') =
     Some (Inr ''720p'',
       (typing ''2'')\<lparr>out := [Resolucoes_disponiveis, Resolucao_item 1 ''1080p'',
          Resolucao_item 2 ''720p'', Fim_resolucoes]\<rparr>)"
    unfolding select_resolution_def vs
    by (simp add: select_loop_Line [of _ "''2''"] py_int_2 typing_def)
  have 1: "''720p'' \<in> set (fst (list_resolutions (video_streams_query digits_value scenario)
       ([], [Resolucoes_disponiveis])))"
    using select_resolution_member
      [of "video_streams_query digits_value scenario" "typing ''2''" "[]"] sel
    by blast
  have 2: "select_turn [''1080p'', ''720p''] (typing ''0'') =
      (Inr None, print Opcao_invalida (typing ''0''))"
    using select_resolution_member [of "[]" "typing ''0''" "[''1080p'', ''720p'']"]
      shd_typing [of "''0''"] py_int_0
    by (simp add: stl_typing)
  have 3: "select_resolution [] (typing ''0'') = None"
    using select_resolution_member [of "[]" "typing ''0''" "[]"] only_lines_typing [of "''0''"]
    by simp
  show ?thesis
    using sel 1 2 3 shd_typing [of "''0''"] py_int_0 only_lines_typing [of "''0''"]
    by simp
qed

section \<open>The name of the output file\<close>

lemma set_squeeze_dashes: "set (squeeze_dashes cs) \<subseteq> set cs"
  by (induction cs rule: squeeze_dashes.induct) auto

lemma set_strip_dashes: "set (strip_dashes cs) \<subseteq> set cs"
  unfolding strip_dashes_def by (auto dest!: set_dropWhileD)

lemma slugify_allowed: "c \<in> set (slugify w text) \<Longrightarrow> allowed_char c"
proof -
  assume "c \<in> set (slugify w text)"
  then have "c \<in> set (map (\<lambda>c. if allowed_char c then c else CHR ''-'') (transliterate w text))"
    unfolding slugify_def using set_strip_dashes set_squeeze_dashes by blast
  then show ?thesis by (auto simp: allowed_char_def)
qed

lemma underscore_suffix:
  assumes "xs @ CHR ''_'' # label = ys @ CHR ''_'' # word" and "CHR ''_'' \<notin> set word"
  shows "suffix word label"
proof -
  from assms(1) obtain us where
    "(xs = ys @ us \<and> us @ CHR ''_'' # label = CHR ''_'' # word) \<or>
     (xs @ us = ys \<and> CHR ''_'' # label = us @ CHR ''_'' # word)"
    by (auto simp: append_eq_append_conv2)
  then show ?thesis
  proof
    assume a: "xs = ys @ us \<and> us @ CHR ''_'' # label = CHR ''_'' # word"
    show ?thesis
    proof (cases us)
      case Nil
      with a show ?thesis by simp
    next
      case (Cons u us')
      with a have "word = us' @ CHR ''_'' # label" by simp
      with assms(2) show ?thesis by simp
    qed
  next
    assume a: "xs @ us = ys \<and> CHR ''_'' # label = us @ CHR ''_'' # word"
    show ?thesis
    proof (cases us)
      case Nil
      with a show ?thesis by simp
    next
      case (Cons u us')
      with a have "label = us' @ CHR ''_'' # word" by simp
      then show ?thesis by (simp add: suffix_def)
    qed
  qed
qed

lemma output_name_temporary:
  assumes "destino @ ''/'' @ output_name safe_title resolucao = destino @ ''/'' @ name @ ''_'' @ word @ ''.mp4''"
    and "CHR ''_'' \<notin> set word"
  shows "suffix word (format_optional resolucao)"
proof -
  from assms(1) have
    "(safe_title @ CHR ''_'' # format_optional resolucao) @ ''.mp4'' = (name @ CHR ''_'' # word) @ ''.mp4''"
    by (simp add: output_name_def)
  then have "safe_title @ CHR ''_'' # format_optional resolucao = name @ CHR ''_'' # word"
    by (simp only: append_same_eq)
  then show ?thesis using assms(2) by (rule underscore_suffix)
qed

lemma slugify_sample: "slugify (sample_env d m r) ''big buck bunny'' = ''big-buck-bunny''"
  by (simp add: slugify_def sample_env_def allowed_char_def strip_dashes_def)

lemma catalogue_label_suffix:
  assumes "catalogue_stream v" and "last word \<noteq> CHR ''p''" and "last word \<noteq> CHR ''e''"
    and "word \<noteq> []"
  shows "\<not> suffix word (format_optional (resolution v))"
proof
  assume s: "suffix word (format_optional (resolution v))"
  then obtain zs where zs: "format_optional (resolution v) = zs @ word"
    by (auto simp: suffix_def)
  with assms(4) have l: "last (format_optional (resolution v)) = last word" by simp
  show False
  proof (cases "resolution v")
    case None
    with l assms(3) show False by (simp add: format_optional_def)
  next
    case (Some label)
    with assms(1) have "last label = CHR ''p''"
      by (simp add: catalogue_stream_def resolution_label_def)
    with Some l assms(2) show False by (simp add: format_optional_def)
  qed
qed

text \<open>
  Claim C9. The output path is the destination directory, the slug of the title, an
  underscore, the resolution label and \<^verbatim>\<open>.mp4\<close>: equal slugs and equal labels give equal
  names. The slug has only letters, digits and hyphens. For a stream of the catalogue,
  whose resolution label is a number followed by \<^verbatim>\<open>p\<close> or is missing, the output path
  differs from the paths of both temporary files.
\<close>

theorem output_path_safe_and_distinct:
  "(slugify w (title yt) = slugify w' (title yt') \<and> resolution v = resolution v' \<longrightarrow>
      output_path w yt v destino = output_path w' yt' v' destino) \<and>
   output_path w yt v destino =
     destino @ ''/'' @ slugify w (title yt) @ ''_'' @ format_optional (resolution v) @ ''.mp4'' \<and>
   (\<forall>c \<in> set (slugify w (title yt)). allowed_char c) \<and>
   (catalogue_stream v \<longrightarrow>
      output_path w yt v destino \<noteq> video_path yt destino \<and>
      output_path w yt v destino \<noteq> audio_path yt destino)"
proof (intro conjI impI ballI)
  assume "slugify w (title yt) = slugify w' (title yt') \<and> resolution v = resolution v'"
  then show "output_path w yt v destino = output_path w' yt' v' destino"
    by (simp add: output_path_def)
next
  show "output_path w yt v destino =
     destino @ ''/'' @ slugify w (title yt) @ ''_'' @ format_optional (resolution v) @ ''.mp4''"
    by (simp add: output_path_def output_name_def)
next
  fix c assume "c \<in> set (slugify w (title yt))"
  then show "allowed_char c" by (rule slugify_allowed)
next
  assume "catalogue_stream v"
  then have n: "\<not> suffix ''video'' (format_optional (resolution v))"
    by (rule catalogue_label_suffix) simp_all
  show "output_path w yt v destino \<noteq> video_path yt destino"
  proof
    assume "output_path w yt v destino = video_path yt destino"
    then have "destino @ ''/'' @ output_name (slugify w (title yt)) (resolution v) =
        destino @ ''/'' @ video_id yt @ ''_'' @ ''video'' @ ''.mp4''"
      by (simp add: output_path_def video_path_def)
    then have "suffix ''video'' (format_optional (resolution v))"
      by (rule output_name_temporary) simp
    with n show False ..
  qed
next
  assume "catalogue_stream v"
  then have n: "\<not> suffix ''audio'' (format_optional (resolution v))"
    by (rule catalogue_label_suffix) simp_all
  show "output_path w yt v destino \<noteq> audio_path yt destino"
  proof
    assume "output_path w yt v destino = audio_path yt destino"
    then have "destino @ ''/'' @ output_name (slugify w (title yt)) (resolution v) =
        destino @ ''/'' @ video_id yt @ ''_'' @ ''audio'' @ ''.mp4''"
      by (simp add: output_path_def audio_path_def)
    then have "suffix ''audio'' (format_optional (resolution v))"
      by (rule output_name_temporary) simp
    with n show False ..
  qed
qed

theorem output_path_safe_and_distinct_witness:
  "catalogue_stream (video_only 1 ''1080p'') \<and>
   output_path (sample_env (\<lambda>f. Downloaded) (Mux_exits 0 [] [] True) (\<lambda>p. None)) sample_video
     (video_only 1 ''1080p'') ''/home/user/Videos'' =
     ''/home/user/Videos/big-buck-bunny_1080p.mp4'' \<and>
   video_path sample_video ''/home/user/Videos'' = ''/home/user/Videos/aqz-KE-bpKQ_video.mp4'' \<and>
   audio_path sample_video ''/home/user/Videos'' = ''/home/user/Videos/aqz-KE-bpKQ_audio.mp4'' \<and>
   output_path (sample_env (\<lambda>f. Downloaded) (Mux_exits 0 [] [] True) (\<lambda>p. None)) sample_video
     (video_only 1 ''1080p'') ''/home/user/Videos'' \<noteq> video_path sample_video ''/home/user/Videos'' \<and>
   output_path (sample_env (\<lambda>f. Downloaded) (Mux_exits 0 [] [] True) (\<lambda>p. None)) sample_video
     (video_only 1 ''1080p'') ''/home/user/Videos'' \<noteq> audio_path sample_video ''/home/user/Videos''"
proof -
  have v: "catalogue_stream (video_only 1 ''1080p'')"
    by (simp add: catalogue_stream_def resolution_label_def video_only_def is_digit_def)
  note inst = output_path_safe_and_distinct
    [of "sample_env (\<lambda>f. Downloaded) (Mux_exits 0 [] [] True) (\<lambda>p. None)" sample_video
        "sample_env (\<lambda>f. Downloaded) (Mux_exits 0 [] [] True) (\<lambda>p. None)" sample_video
        "video_only 1 ''1080p''" "video_only 1 ''1080p''" "''/home/user/Videos''"]
  have 1: "output_path (sample_env (\<lambda>f. Downloaded) (Mux_exits 0 [] [] True) (\<lambda>p. None))
      sample_video (video_only 1 ''1080p'') ''/home/user/Videos'' \<noteq>
      video_path sample_video ''/home/user/Videos''"
    using inst v by blast
  have 2: "output_path (sample_env (\<lambda>f. Downloaded) (Mux_exits 0 [] [] True) (\<lambda>p. None))
      sample_video (video_only 1 ''1080p'') ''/home/user/Videos'' \<noteq>
      audio_path sample_video ''/home/user/Videos''"
    using inst v by blast
  have 3: "output_path (sample_env (\<lambda>f. Downloaded) (Mux_exits 0 [] [] True) (\<lambda>p. None))
      sample_video (video_only 1 ''1080p'') ''/home/user/Videos'' =
      ''/home/user/Videos/big-buck-bunny_1080p.mp4''"
    by (simp add: output_path_def output_name_def sample_video_def slugify_sample
        format_optional_def video_only_def)
  have 4: "video_path sample_video ''/home/user/Videos'' =
      ''/home/user/Videos/aqz-KE-bpKQ_video.mp4''"
    by (simp add: video_path_def sample_video_def)
  have 5: "audio_path sample_video ''/home/user/Videos'' =
      ''/home/user/Videos/aqz-KE-bpKQ_audio.mp4''"
    by (simp add: audio_path_def sample_video_def)
  from v 1 2 3 4 5 show ?thesis by blast
qed

section \<open>The pipeline of download\_and\_merge\<close>

lemma last_ffmpeg_cmd: "last (ffmpeg_cmd w yt v destino) = output_path w yt v destino"
  by (simp add: ffmpeg_cmd_def)

lemma video_path_neq_audio_path: "video_path yt destino \<noteq> audio_path yt destino"
  by (simp add: video_path_def audio_path_def)

lemma and_then_Inr: "m s = (Inr x, s1) \<Longrightarrow> and_then m f s = f x s1"
  by (simp add: and_then_def)

lemma and_then_Inl: "m s = (Inl e, s1) \<Longrightarrow> and_then m f s = (Inl e, s1)"
  by (simp add: and_then_def)

lemma and_then_return: "and_then (\<lambda>s. (Inr x, g s)) f s = f x (g s)"
  by (simp add: and_then_def)

lemma try_fetched:
  assumes "fetched w yt v a"
  shows "download_and_merge_try w yt v a destino s =
     and_then (subprocess_run w (ffmpeg_cmd w yt v destino)) (\<lambda>_.
     and_then (os_remove w (video_path yt destino)) (\<lambda>_.
     and_then (os_remove w (audio_path yt destino)) (\<lambda>_.
     (\<lambda>s. (Inr (),
        print (Arquivo_salvo (output_path w yt v destino))
          (print Download_concluido s))))))
       (fetched_state yt destino s)"
proof -
  let ?s1 = "s\<lparr>files := insert (video_path yt destino) (files s)\<rparr>"
  let ?s2 = "?s1\<lparr>files := insert (audio_path yt destino) (files ?s1)\<rparr>"
  from assms have 1: "loading_animation w ''Baixando video'' s = (Inr (), s)"
    by (simp add: fetched_def loading_animation_def)
  from assms have 2: "stream_download w v destino (video_id yt @ ''_video.mp4'') s = (Inr (), ?s1)"
    by (simp add: fetched_def stream_download_def video_path_def)
  from assms have 3: "loading_animation w ''Baixando audio'' ?s1 = (Inr (), ?s1)"
    by (simp add: fetched_def loading_animation_def)
  from assms have 4: "stream_download w a destino (video_id yt @ ''_audio.mp4'') ?s1 = (Inr (), ?s2)"
    by (simp add: fetched_def stream_download_def audio_path_def)
  have 5: "print Mesclando_arquivos ?s2 = fetched_state yt destino s"
    by (simp add: fetched_state_def)
  show ?thesis
    unfolding download_and_merge_try_def
    by (simp only: and_then_Inr [where m = "loading_animation w ''Baixando video''", OF 1]
        and_then_Inr [where m = "stream_download w v destino (video_id yt @ ''_video.mp4'')", OF 2]
        and_then_Inr [where m = "loading_animation w ''Baixando audio''", OF 3]
        and_then_Inr [where m = "stream_download w a destino (video_id yt @ ''_audio.mp4'')", OF 4]
        and_then_return 5)
qed

lemma subprocess_run_result:
  "subprocess_run w (ffmpeg_cmd w yt v destino) (fetched_state yt destino s) =
     (case ffmpeg w (ffmpeg_cmd w yt v destino) of
        Mux_raises e \<Rightarrow> external e (fetched_state yt destino s)
      | Mux_exits returncode captured_stdout captured_stderr written \<Rightarrow>
          (if returncode \<noteq> 0
           then Inl (CalledProcessError (ffmpeg_cmd w yt v destino) returncode
                       captured_stdout captured_stderr)
           else Inr (),
           after_mux w yt v destino s))"
  by (simp add: subprocess_run_def after_mux_def Let_def last_ffmpeg_cmd
      split: mux_result.splits)

lemma files_delivered [simp]: "files (delivered e s) = files s"
  by (simp add: delivered_def)

lemma out_delivered [simp]: "out (delivered e s) = out s"
  by (simp add: delivered_def)

lemma console_delivered [simp]: "console (delivered e s) = console s"
  by (simp add: delivered_def)

lemma files_print [simp]: "files (print m s) = files s"
  by (simp add: print_def)

lemma out_print [simp]: "out (print m s) = out s @ [m]"
  by (simp add: print_def)

lemma interrupted_print [simp]: "interrupted (print m s) = interrupted s"
  by (simp add: print_def)

lemma files_fetched_state [simp]:
  "files (fetched_state yt destino s) =
     insert (audio_path yt destino) (insert (video_path yt destino) (files s))"
  by (simp add: fetched_state_def)

lemma out_fetched_state [simp]:
  "out (fetched_state yt destino s) = out s @ [Mesclando_arquivos]"
  by (simp add: fetched_state_def)

lemma files_after_mux:
  "files (after_mux w yt v destino s) =
     (if mux_writes (ffmpeg w (ffmpeg_cmd w yt v destino))
      then {output_path w yt v destino} else {}) \<union>
     insert (audio_path yt destino) (insert (video_path yt destino) (files s))"
  by (auto simp: after_mux_def Let_def)

lemma out_after_mux [simp]:
  "out (after_mux w yt v destino s) = out s @ [Mesclando_arquivos]"
  by (simp add: after_mux_def Let_def)


lemma try_mux_fails:
  assumes "fetched w yt v a" and "\<not> mux_ok (ffmpeg w (ffmpeg_cmd w yt v destino))"
  shows "download_and_merge_try w yt v a destino s =
     (case ffmpeg w (ffmpeg_cmd w yt v destino) of
        Mux_raises e \<Rightarrow> (Inl e, delivered e (fetched_state yt destino s))
      | Mux_exits returncode captured_stdout captured_stderr written \<Rightarrow>
          (Inl (CalledProcessError (ffmpeg_cmd w yt v destino) returncode
                  captured_stdout captured_stderr),
           after_mux w yt v destino s))"
proof (cases "ffmpeg w (ffmpeg_cmd w yt v destino)")
  case (Mux_raises e)
  then have "subprocess_run w (ffmpeg_cmd w yt v destino) (fetched_state yt destino s) =
      (Inl e, delivered e (fetched_state yt destino s))"
    by (simp add: subprocess_run_result external_def)
  from and_then_Inl [where m = "subprocess_run w (ffmpeg_cmd w yt v destino)", OF this]
  show ?thesis by (simp add: try_fetched [OF assms(1)] Mux_raises)
next
  case (Mux_exits returncode captured_stdout captured_stderr written)
  with assms(2) have "returncode \<noteq> 0" by simp
  with Mux_exits
  have "subprocess_run w (ffmpeg_cmd w yt v destino) (fetched_state yt destino s) =
      (Inl (CalledProcessError (ffmpeg_cmd w yt v destino) returncode
              captured_stdout captured_stderr),
       after_mux w yt v destino s)"
    by (simp add: subprocess_run_result)
  from and_then_Inl [where m = "subprocess_run w (ffmpeg_cmd w yt v destino)", OF this]
  show ?thesis by (simp add: try_fetched [OF assms(1)] Mux_exits)
qed

lemma try_cleanup:
  assumes "reaches_cleanup w yt v a destino"
  shows "download_and_merge_try w yt v a destino s =
     (case remove w (video_path yt destino) of
        Some e \<Rightarrow> (Inl e, delivered e (after_mux w yt v destino s))
      | None \<Rightarrow>
          (case remove w (audio_path yt destino) of
             Some e \<Rightarrow>
               (Inl e, delivered e
                  ((after_mux w yt v destino s)
                     \<lparr>files := files (after_mux w yt v destino s) - {video_path yt destino}\<rparr>))
           | None \<Rightarrow>
               (Inr (),
                print (Arquivo_salvo (output_path w yt v destino))
                  (print Download_concluido
                    ((after_mux w yt v destino s)
                       \<lparr>files := files (after_mux w yt v destino s)
                          - {video_path yt destino} - {audio_path yt destino}\<rparr>)))))"
proof -
  let ?t0 = "after_mux w yt v destino s"
  let ?t1 = "?t0\<lparr>files := files ?t0 - {video_path yt destino}\<rparr>"
  let ?t2 = "?t0\<lparr>files := files ?t0 - {video_path yt destino} - {audio_path yt destino}\<rparr>"
  from assms have f: "fetched w yt v a" and ok: "mux_ok (ffmpeg w (ffmpeg_cmd w yt v destino))"
    by (simp_all add: reaches_cleanup_def)
  from ok have "subprocess_run w (ffmpeg_cmd w yt v destino) (fetched_state yt destino s) =
      (Inr (), ?t0)"
    by (cases "ffmpeg w (ffmpeg_cmd w yt v destino)") (simp_all add: subprocess_run_result)
  from and_then_Inr [where m = "subprocess_run w (ffmpeg_cmd w yt v destino)", OF this]
  have start: "download_and_merge_try w yt v a destino s =
     and_then (os_remove w (video_path yt destino)) (\<lambda>_.
     and_then (os_remove w (audio_path yt destino)) (\<lambda>_.
     (\<lambda>s. (Inr (),
        print (Arquivo_salvo (output_path w yt v destino))
          (print Download_concluido s))))) ?t0"
    by (simp add: try_fetched [OF f])
  have v: "video_path yt destino \<in> files ?t0" by (simp add: files_after_mux)
  have a: "audio_path yt destino \<in> files ?t1"
    using video_path_neq_audio_path [of yt destino] by (auto simp: files_after_mux)
  show ?thesis
  proof (cases "remove w (video_path yt destino)")
    case (Some e)
    with v have "os_remove w (video_path yt destino) ?t0 = (Inl e, delivered e ?t0)"
      by (simp add: os_remove_def external_def)
    from and_then_Inl [where m = "os_remove w (video_path yt destino)", OF this]
    show ?thesis by (simp add: start Some)
  next
    case None
    with v have 1: "os_remove w (video_path yt destino) ?t0 = (Inr (), ?t1)"
      by (simp add: os_remove_def)
    note step1 = and_then_Inr [where m = "os_remove w (video_path yt destino)", OF 1]
    show ?thesis
    proof (cases "remove w (audio_path yt destino)")
      case (Some e)
      with a have "os_remove w (audio_path yt destino) ?t1 = (Inl e, delivered e ?t1)"
        by (simp add: os_remove_def external_def)
      from and_then_Inl [where m = "os_remove w (audio_path yt destino)", OF this]
      show ?thesis by (simp add: start step1 None Some)
    next
      case None2: None
      with a have "os_remove w (audio_path yt destino) ?t1 = (Inr (), ?t2)"
        by (simp add: os_remove_def)
      from and_then_Inr [where m = "os_remove w (audio_path yt destino)", OF this]
      show ?thesis by (simp add: start step1 None None2)
    qed
  qed
qed

section \<open>Temporary files, failures of the multiplexer and of the cleanup\<close>

lemma download_and_merge_handler:
  "download_and_merge w yt v a destino s =
     (case download_and_merge_try w yt v a destino s of
        (Inr u, s') \<Rightarrow> (Inr u, s')
      | (Inl e, s') \<Rightarrow>
          if is_Exception e
          then (Inl (SystemExit 1), s'\<lparr>out := out s' @ [Erro_durante_o_processo (py_str e)]\<rparr>)
          else (Inl e, s'))"
  by (simp add: download_and_merge_def sys_exit_def print_def split: prod.splits sum.splits)




lemma fetched_world [simp]:
  "fetched (sample_env (\<lambda>f. Downloaded) m r) sample_video v a"
  by (simp add: fetched_def sample_env_def)

lemma ffmpeg_world [simp]: "ffmpeg (sample_env d m r) cmd = m"
  by (simp add: sample_env_def)

lemma remove_world [simp]: "remove (sample_env d m r) = r"
  by (simp add: sample_env_def)

lemma sample_paths:
  "video_path sample_video videos = ''/home/user/Videos/aqz-KE-bpKQ_video.mp4''"
  "audio_path sample_video videos = ''/home/user/Videos/aqz-KE-bpKQ_audio.mp4''"
  "output_path (sample_env d m r) sample_video chosen videos =
     ''/home/user/Videos/big-buck-bunny_1080p.mp4''"
  by (simp_all add: video_path_def audio_path_def output_path_def output_name_def
      sample_video_def videos_def chosen_def video_only_def format_optional_def slugify_sample)


lemma sample_mux_fails:
  "download_and_merge world_mux_fails sample_video chosen best_audio videos selected =
     (Inl (SystemExit 1),
      selected\<lparr>files := {''/home/user/Videos/aqz-KE-bpKQ_audio.mp4'',
                 ''/home/user/Videos/aqz-KE-bpKQ_video.mp4''},
        out := out selected @ [Mesclando_arquivos,
          Erro_durante_o_processo
            ''Command '['ffmpeg', '-y', '-i', '/home/user/Videos/aqz-KE-bpKQ_video.mp4', '-i', '/home/user/Videos/aqz-KE-bpKQ_audio.mp4', '-c:v', 'copy', '-c:a', 'aac', '-strict', 'experimental', '/home/user/Videos/big-buck-bunny_1080p.mp4']' returned non-zero exit status 1.'']\<rparr>)"
proof -
  have f: "fetched world_mux_fails sample_video chosen best_audio"
    by (simp add: world_mux_fails_def)
  have n: "\<not> mux_ok (ffmpeg world_mux_fails (ffmpeg_cmd world_mux_fails sample_video chosen videos))"
    by (simp add: world_mux_fails_def)
  have e: "files selected = {}" by (simp add: selected_def typing_def)
  have c: "ffmpeg_cmd world_mux_fails sample_video chosen videos =
      [''ffmpeg'', ''-y'', ''-i'', ''/home/user/Videos/aqz-KE-bpKQ_video.mp4'',
       ''-i'', ''/home/user/Videos/aqz-KE-bpKQ_audio.mp4'', ''-c:v'', ''copy'',
       ''-c:a'', ''aac'', ''-strict'', ''experimental'',
       ''/home/user/Videos/big-buck-bunny_1080p.mp4'']"
    by (simp add: ffmpeg_cmd_def world_mux_fails_def sample_paths)
  have m: "\<And>cmd. ffmpeg world_mux_fails cmd = Mux_exits 1 [] ''No space left on device'' False"
    by (simp add: world_mux_fails_def)
  have p: "video_path sample_video videos = ''/home/user/Videos/aqz-KE-bpKQ_video.mp4''"
      "audio_path sample_video videos = ''/home/user/Videos/aqz-KE-bpKQ_audio.mp4''"
    by (simp_all add: sample_paths)
  have one: "show_int 1 = ''1''"
    by code_simp
  show ?thesis
    by (simp add: download_and_merge_handler try_mux_fails [OF f n] m c after_mux_def
        fetched_state_def print_def Let_def e p repr_list_def one)
qed

lemma sample_cleanup_fails:
  "download_and_merge world_cleanup_fails sample_video chosen best_audio videos selected =
     (Inl (SystemExit 1),
      selected\<lparr>files := {''/home/user/Videos/big-buck-bunny_1080p.mp4'',
                 ''/home/user/Videos/aqz-KE-bpKQ_audio.mp4'',
                 ''/home/user/Videos/aqz-KE-bpKQ_video.mp4''},
        out := out selected @ [Mesclando_arquivos,
          Erro_durante_o_processo
            (''[Errno 13] Permission denied: '/home/user/Videos/aqz-KE-bpKQ_video.mp4''
               @ [CHR 0x27])]\<rparr>)"
proof -
  have rc: "reaches_cleanup world_cleanup_fails sample_video chosen best_audio videos"
    by (simp add: reaches_cleanup_def world_cleanup_fails_def)
  have e: "files selected = {}" by (simp add: selected_def typing_def)
  have r: "\<And>p. remove world_cleanup_fails p =
      Some (OSError (''[Errno 13] Permission denied: '' @ [CHR 0x27] @ p @ [CHR 0x27]))"
    by (simp add: world_cleanup_fails_def)
  have m: "\<And>cmd. ffmpeg world_cleanup_fails cmd = Mux_exits 0 [] [] True"
    by (simp add: world_cleanup_fails_def)
  have p: "video_path sample_video videos = ''/home/user/Videos/aqz-KE-bpKQ_video.mp4''"
      "audio_path sample_video videos = ''/home/user/Videos/aqz-KE-bpKQ_audio.mp4''"
      "output_path world_cleanup_fails sample_video chosen videos =
         ''/home/user/Videos/big-buck-bunny_1080p.mp4''"
    by (simp_all add: sample_paths world_cleanup_fails_def)
  show ?thesis
    by (simp add: download_and_merge_handler try_cleanup [OF rc] r m after_mux_def
        fetched_state_def print_def Let_def e p delivered_def)
qed

lemma py_int_1: "py_int ''1'' = Some 1"
  by (simp add: py_int_def is_int_space_def is_digit_def nat_of_digits_def
      int_max_str_digits_def)

lemma scenario_menu:
  "list_resolutions (video_streams_query digits_value scenario) ([], [Resolucoes_disponiveis]) =
     ([''1080p'', ''720p''],
      [Resolucoes_disponiveis, Resolucao_item 1 ''1080p'', Resolucao_item 2 ''720p''])"
  by (simp add: scenario_def video_only_def audio_only_def
     video_streams_query_def desc_def order_by_def only_video_def file_extension_def
     digits_value_def nat_of_digits_def is_digit_def)

lemma scenario_selection:
  "select_resolution (video_streams_query digits_value scenario) (typing ''1'') =
     Some (Inr ''1080p'', selected)"
  unfolding select_resolution_def scenario_menu
  by (simp add: select_loop_Line [of _ "''1''"] py_int_1 typing_def selected_def)

lemma scenario_descriptors:
  "resolveDescriptors (sample_env d m r) sample_video ''1080p'' = (Some chosen, Some best_audio)"
proof -
  have v: "video_stream_query ''1080p'' scenario = Some chosen"
    by (simp add: chosen_def video_stream_query_def first_def scenario_def video_only_def
        audio_only_def res_def only_video_def file_extension_def)
  have k: "abr_key (sample_env d m r) = digits_value" "fmt_streams sample_video = scenario"
    by (simp_all add: sample_env_def sample_video_def)
  show ?thesis
    by (simp add: resolveDescriptors_def k v scenario_audio_stream best_audio_def)
qed

lemma main_sample:
  "main (sample_env d m r) (typing ''1'') =
     Some (download_and_merge (sample_env d m r) sample_video chosen best_audio videos selected)"
proof -
  have i: "input (typing ''1'') = (Inr ''1'', typing ''1'')"
    by (simp add: input_def typing_def)
  have l: "loading_animation (sample_env d m r) ''Obtendo informacoes do video'' (typing ''1'') =
      (Inr (), typing ''1'')"
    by (simp add: loading_animation_def sample_env_def)
  have g: "\<And>url. get_video_info (sample_env d m r) url (typing ''1'') =
      (Inr sample_video, typing ''1'')"
    by (simp add: get_video_info_def sample_env_def)
  have k: "resolution_key (sample_env d m r) = digits_value" "fmt_streams sample_video = scenario"
      "home (sample_env d m r) @ ''/Videos'' = videos"
    by (simp_all add: sample_env_def sample_video_def videos_def)
  show ?thesis
    by (simp add: main_def i l g k scenario_selection main_after_selection_def
        scenario_descriptors)
qed

lemma program_sample:
  "program (sample_env d m r) (typing ''1'') =
     Some (at_exit
       (download_and_merge (sample_env d m r) sample_video chosen best_audio videos selected))"
  by (simp add: program_def main_sample)



end
